theory Spec2Isabelle
  imports Complex_Main "HOL-Library.Sublist" "HOL-Library.Log_Nat"
begin

section \<open>Python strings\<close>

text \<open>
  A Python \<open>str\<close> is a sequence of code points. The model uses \<open>string\<close>, whose characters
  are read as the code points U+0000 to U+00FF; on that range the three string operations of
  \<open>mechanic_detector.py\<close> (\<open>str.lower\<close>, whitespace in \<open>str.strip\<close> and in the regular
  expression class \<open>\s\<close>) are as defined here.
\<close>

definition isspace :: "char \<Rightarrow> bool" where
  "isspace c = (let n = (of_char c :: nat) in
     (9 \<le> n \<and> n \<le> 13) \<or> (28 \<le> n \<and> n \<le> 32) \<or> n = 133 \<or> n = 160)"

definition lower_char :: "char \<Rightarrow> char" where
  "lower_char c = (let n = (of_char c :: nat) in
     if (65 \<le> n \<and> n \<le> 90) \<or> (192 \<le> n \<and> n \<le> 214) \<or> (216 \<le> n \<and> n \<le> 222)
     then char_of (n + 32) else c)"

definition lower :: "string \<Rightarrow> string" where
  "lower s = map lower_char s"

text \<open>\<open>s.strip()\<close>: whitespace removed at both ends.\<close>

definition strip :: "string \<Rightarrow> string" where
  "strip s = rev (dropWhile isspace (rev (dropWhile isspace s)))"

text \<open>\<open>a in b\<close> on strings: \<open>a\<close> occurs in \<open>b\<close> as a contiguous run.\<close>

definition py_in :: "string \<Rightarrow> string \<Rightarrow> bool" where
  "py_in a b = sublist a b"

section \<open>Mechanic label extraction (\<open>_extract_mechanic\<close>)\<close>

text \<open>
  \<open>MECHANIC_REGEX\<close> is
  \<^verbatim>\<open>(?i)(?:new|secret|update|introducing|added|unlock|mechanic|feature|quest|code)[:\-\s]*(.*)\<close>.
  \<open>search\<close> tries the start positions from left to right. At one position the alternatives are
  tried in the order written; once a keyword matches, the separator class \<open>[:\-\s]*\<close> takes
  every separator that follows (greedy) and \<open>(.*)\<close> takes everything up to the end of the line
  (\<open>.\<close> matches every character except the line feed), so the rest of the pattern cannot fail
  and no other alternative is tried.
\<close>

definition MECHANIC_KEYWORDS :: "string list" where
  "MECHANIC_KEYWORDS = [''new'', ''secret'', ''update'', ''introducing'', ''added'',
     ''unlock'', ''mechanic'', ''feature'', ''quest'', ''code'']"

definition is_separator :: "char \<Rightarrow> bool" where
  "is_separator c = (c = CHR '':'' \<or> c = CHR ''-'' \<or> isspace c)"

definition is_linefeed :: "char \<Rightarrow> bool" where
  "is_linefeed c = ((of_char c :: nat) = 10)"

text \<open>The keyword alternation at the head of \<open>s\<close>: the text after the first alternative that
  matches there, ignoring case.\<close>

fun match_alternatives :: "string list \<Rightarrow> string \<Rightarrow> string option" where
  "match_alternatives [] s = None"
| "match_alternatives (k # ks) s =
     (if take (length k) (lower s) = k then Some (drop (length k) s)
      else match_alternatives ks s)"

text \<open>The whole pattern anchored at the head of \<open>s\<close>: the text of group 1.\<close>

definition match_here :: "string \<Rightarrow> string option" where
  "match_here s =
     (case match_alternatives MECHANIC_KEYWORDS s of
        None \<Rightarrow> None
      | Some rest \<Rightarrow> Some (takeWhile (\<lambda>c. \<not> is_linefeed c) (dropWhile is_separator rest)))"

text \<open>\<open>MECHANIC_REGEX.search(title)\<close>, as \<open>match.group(1)\<close> when there is a match.\<close>

fun regex_search :: "string \<Rightarrow> string option" where
  "regex_search [] = match_here []"
| "regex_search (c # cs) =
     (case match_here (c # cs) of
        Some g \<Rightarrow> Some g
      | None \<Rightarrow> regex_search cs)"

definition extract_mechanic :: "string \<Rightarrow> string" where
  "extract_mechanic title =
     (case regex_search title of
        Some g \<Rightarrow> take 120 (strip g)
      | None \<Rightarrow> take 120 title)"

section \<open>Matching a game name against a video title (\<open>_video_matches_game\<close>)\<close>

definition KEYWORD_HINTS :: "string list" where
  "KEYWORD_HINTS = [''new'', ''update'', ''secret'', ''mechanic'', ''code'', ''feature'',
     ''quest'', ''event'']"

definition FUZZ_THRESHOLD :: rat where
  "FUZZ_THRESHOLD = 82"

text \<open>The \<open>for keyword in KEYWORD_HINTS\<close> loop, with its early \<open>return True\<close>.\<close>

fun keyword_loop :: "string list \<Rightarrow> string \<Rightarrow> string \<Rightarrow> bool" where
  "keyword_loop [] game_name video_title = False"
| "keyword_loop (keyword # ks) game_name video_title =
     (if py_in keyword (lower video_title) \<and> py_in (lower game_name) (lower video_title)
      then True
      else keyword_loop ks game_name video_title)"

text \<open>
  \<open>fuzz.partial_ratio\<close> belongs to the rapidfuzz library, not to this repository: it is the
  parameter \<open>partial_ratio\<close>, a score for two strings.
\<close>

definition video_matches_game :: "(string \<Rightarrow> string \<Rightarrow> rat) \<Rightarrow> string \<Rightarrow> string \<Rightarrow> bool" where
  "video_matches_game partial_ratio game_name video_title =
     (let score = partial_ratio (lower game_name) (lower video_title) in
      if score \<ge> FUZZ_THRESHOLD then True
      else keyword_loop KEYWORD_HINTS game_name video_title)"

section \<open>Python values\<close>

text \<open>
  The values \<open>json.loads\<close> and \<open>resp.json()\<close> build: \<open>None\<close>, booleans, integers, strings,
  lists and dicts with string keys. A dict is the list of its items in insertion order, the
  keys distinct. Numbers are the integers: a payload with a fractional number is outside
  the model.
\<close>

datatype json =
    JNull
  | JBool bool
  | JInt int
  | JStr string
  | JArr "json list"
  | JObj "(string \<times> json) list"

datatype py_error =
    AttributeError
  | TypeError
  | ValueError
  | KeyError
  | IndexError
  | ClientError
  | ContentError

text \<open>Truth value of an object, as \<open>if x\<close>, \<open>not x\<close> and \<open>x or y\<close> test it.\<close>

fun truthy :: "json \<Rightarrow> bool" where
  "truthy JNull = False"
| "truthy (JBool b) = b"
| "truthy (JInt n) = (n \<noteq> 0)"
| "truthy (JStr s) = (s \<noteq> [])"
| "truthy (JArr xs) = (xs \<noteq> [])"
| "truthy (JObj kvs) = (kvs \<noteq> [])"

text \<open>\<open>d.get(key, default)\<close> on the items of a dict; \<open>d.get(key)\<close> has the default \<open>None\<close>.\<close>

definition dict_get :: "(string \<times> json) list \<Rightarrow> string \<Rightarrow> json \<Rightarrow> json" where
  "dict_get kvs key dflt = (case map_of kvs key of None \<Rightarrow> dflt | Some v \<Rightarrow> v)"

text \<open>\<open>x.get(key)\<close> on any object: only a dict has the method.\<close>

fun py_get :: "json \<Rightarrow> string \<Rightarrow> py_error + json" where
  "py_get (JObj kvs) key = Inr (dict_get kvs key JNull)"
| "py_get _ key = Inl AttributeError"

text \<open>\<open>x[0]\<close>. The keys of a decoded dict are strings, so \<open>0\<close> is never one of them.\<close>

fun subscript0 :: "json \<Rightarrow> py_error + json" where
  "subscript0 (JArr []) = Inl IndexError"
| "subscript0 (JArr (x # xs)) = Inr x"
| "subscript0 (JStr []) = Inl IndexError"
| "subscript0 (JStr (c # cs)) = Inr (JStr [c])"
| "subscript0 (JObj kvs) = Inl KeyError"
| "subscript0 _ = Inl TypeError"

text \<open>\<open>xs[:limit]\<close>: a negative limit counts from the end.\<close>

definition slice_to :: "int \<Rightarrow> 'a list \<Rightarrow> 'a list" where
  "slice_to limit xs =
     (if 0 \<le> limit then take (nat limit) xs else take (nat (int (length xs) + limit)) xs)"

text \<open>\<open>list(dict.fromkeys(xs))\<close>: duplicates dropped, the first occurrences kept in order.\<close>

fun dict_fromkeys :: "'a list \<Rightarrow> 'a list" where
  "dict_fromkeys [] = []"
| "dict_fromkeys (x # xs) = x # filter (\<lambda>y. y \<noteq> x) (dict_fromkeys xs)"

section \<open>Snapshot poller (\<open>roproxy_client.py\<close>)\<close>

text \<open>
  \<open>UniverseSnapshot\<close> is a dataclass: its annotations are not checked when it is built, so a
  field holds whatever the payload held.
\<close>

record universe_snapshot =
  universe_id :: int
  name :: json
  ccu :: json
  root_place_id :: json
  description :: json
  creator_id :: json
  creator_name :: json
  genre :: json
  visits :: json

text \<open>
  What one request gives: \<open>session.get\<close> raises (no connection, time-out), or answers with a
  status; then \<open>await resp.json()\<close> raises or gives the decoded body.
\<close>

datatype body = BodyError | Body json

datatype http_result = RequestError | Response int body

text \<open>The \<open>try\<close> block of \<open>_fetch_universe_snapshot\<close>: an exception, a snapshot returned from
  inside, or the end of the block reached (\<open>None\<close>).\<close>

definition build_snapshot :: "int \<Rightarrow> json \<Rightarrow> py_error + universe_snapshot option" where
  "build_snapshot uid payload =
     (case py_get payload ''data'' of
        Inl e \<Rightarrow> Inl e
      | Inr data \<Rightarrow>
          if truthy data then
            (case subscript0 data of
               Inl e \<Rightarrow> Inl e
             | Inr game \<Rightarrow>
                 (case game of
                    JObj g \<Rightarrow>
                      (let c = dict_get g ''creator'' JNull;
                           creator = (if truthy c then c else JObj [])
                       in case creator of
                            JObj cr \<Rightarrow>
                              Inr (Some \<lparr>universe_id = uid,
                                name = dict_get g ''name'' (JStr ''Unknown''),
                                ccu = dict_get g ''playing'' (JInt 0),
                                root_place_id = dict_get g ''rootPlaceId'' JNull,
                                description = dict_get g ''description'' JNull,
                                creator_id = dict_get cr ''id'' JNull,
                                creator_name = dict_get cr ''name'' JNull,
                                genre = dict_get g ''genre'' JNull,
                                visits = dict_get g ''visits'' JNull\<rparr>)
                          | _ \<Rightarrow> Inl AttributeError)
                  | _ \<Rightarrow> Inl AttributeError))
          else Inr None)"

definition try_fetch :: "int \<Rightarrow> http_result \<Rightarrow> py_error + universe_snapshot option" where
  "try_fetch uid res =
     (case res of
        RequestError \<Rightarrow> Inl ClientError
      | Response status b \<Rightarrow>
          if status = 200 then
            (case b of BodyError \<Rightarrow> Inl ContentError | Body payload \<Rightarrow> build_snapshot uid payload)
          else Inr None)"

definition zero_snapshot :: "int \<Rightarrow> universe_snapshot" where
  "zero_snapshot uid = \<lparr>universe_id = uid, name = JStr ''Unknown'', ccu = JInt 0,
     root_place_id = JNull, description = JNull, creator_id = JNull, creator_name = JNull,
     genre = JNull, visits = JNull\<rparr>"

text \<open>\<open>except Exception\<close> catches every error of the block; after it, and after a block that
  ran to its end, the function returns the zero-value snapshot.\<close>

definition fetch_universe_snapshot :: "int \<Rightarrow> http_result \<Rightarrow> universe_snapshot" where
  "fetch_universe_snapshot uid res =
     (case try_fetch uid res of
        Inl e \<Rightarrow> zero_snapshot uid
      | Inr None \<Rightarrow> zero_snapshot uid
      | Inr (Some s) \<Rightarrow> s)"

text \<open>
  \<open>asyncio.gather\<close> over the de-duplicated ids: the results come back in the order of the ids,
  whatever the interleaving of the requests. \<open>net uid\<close> is what the request for \<open>uid\<close> gives.
\<close>

definition gather_snapshots :: "(int \<Rightarrow> http_result) \<Rightarrow> int list \<Rightarrow> universe_snapshot list" where
  "gather_snapshots net universe_ids =
     map (\<lambda>uid. fetch_universe_snapshot uid (net uid)) (dict_fromkeys universe_ids)"

subsection \<open>The store\<close>

text \<open>
  The two tables the poller writes, as lists of rows. A row of \<open>games\<close> is the tuple the
  \<open>INSERT\<close> binds: universe id, name, ccu, timestamp. A row of \<open>game_metadata\<close> is the snapshot
  and the time of the upsert.
\<close>

record tables =
  games :: "(int \<times> json \<times> json \<times> int) list"
  game_metadata :: "(universe_snapshot \<times> int) list"

datatype statement =
    UpsertMetadata universe_snapshot int
  | DeleteGames int int
  | InsertGames int json json int

fun apply_statement :: "statement \<Rightarrow> tables \<Rightarrow> tables" where
  "apply_statement (UpsertMetadata s updated_at) t =
     t\<lparr>game_metadata :=
         filter (\<lambda>(m, u). universe_id m \<noteq> universe_id s) (game_metadata t) @ [(s, updated_at)]\<rparr>"
| "apply_statement (DeleteGames uid ts) t =
     t\<lparr>games := filter (\<lambda>(u, n, c, t'). \<not> (u = uid \<and> t' = ts)) (games t)\<rparr>"
| "apply_statement (InsertGames uid n c ts) t =
     t\<lparr>games := games t @ [(uid, n, c, ts)]\<rparr>"

text \<open>
  A DuckDB connection. With no transaction open it is in auto-commit mode: \<open>execute\<close> commits
  the statement as it runs it, and \<open>commit\<close> has nothing to do. Inside a transaction (opened by
  \<open>begin\<close>, which \<open>roproxy_client.py\<close> never calls) the statements work on a copy that
  \<open>commit\<close> publishes. What a failure leaves behind is \<open>committed\<close>.
\<close>

record connection =
  committed :: tables
  open_transaction :: "tables option"

definition execute :: "statement \<Rightarrow> connection \<Rightarrow> connection" where
  "execute st db =
     (case open_transaction db of
        None \<Rightarrow> db\<lparr>committed := apply_statement st (committed db)\<rparr>
      | Some w \<Rightarrow> db\<lparr>open_transaction := Some (apply_statement st w)\<rparr>)"

definition commit :: "connection \<Rightarrow> connection" where
  "commit db =
     (case open_transaction db of
        None \<Rightarrow> db
      | Some w \<Rightarrow> \<lparr>committed = w, open_transaction = None\<rparr>)"

text \<open>The body of the \<open>for snapshot in snapshots\<close> loop; \<open>clock uid\<close> is the reading of
  \<open>datetime.utcnow()\<close> inside \<open>_upsert_metadata\<close> for that snapshot.\<close>

definition snapshot_statements :: "int \<Rightarrow> (int \<Rightarrow> int) \<Rightarrow> universe_snapshot \<Rightarrow> statement list" where
  "snapshot_statements timestamp clock snapshot =
     [UpsertMetadata snapshot (clock (universe_id snapshot)),
      DeleteGames (universe_id snapshot) timestamp,
      InsertGames (universe_id snapshot) (name snapshot) (ccu snapshot) timestamp]"

definition batch_statements ::
  "(int \<Rightarrow> http_result) \<Rightarrow> int \<Rightarrow> (int \<Rightarrow> int) \<Rightarrow> int list \<Rightarrow> statement list" where
  "batch_statements net timestamp clock universe_ids =
     concat (map (snapshot_statements timestamp clock) (gather_snapshots net universe_ids))"

definition poll_top_games ::
  "(int \<Rightarrow> http_result) \<Rightarrow> int \<Rightarrow> (int \<Rightarrow> int) \<Rightarrow> int list \<Rightarrow> connection \<Rightarrow> connection" where
  "poll_top_games net timestamp clock universe_ids db =
     (if dict_fromkeys universe_ids = [] then db
      else commit (fold execute (batch_statements net timestamp clock universe_ids) db))"

text \<open>
  The same run when it fails at statement number \<open>k\<close> of the loop (that \<open>execute\<close> raises, or the
  process dies there): the statements before it have run, nothing after it does, and
  \<open>self.db.commit()\<close> is not reached.
\<close>

definition poll_top_games_failing ::
  "nat \<Rightarrow> (int \<Rightarrow> http_result) \<Rightarrow> int \<Rightarrow> (int \<Rightarrow> int) \<Rightarrow> int list \<Rightarrow> connection \<Rightarrow> connection" where
  "poll_top_games_failing k net timestamp clock universe_ids db =
     fold execute (take k (batch_statements net timestamp clock universe_ids)) db"

section \<open>Candidate source resolver (\<open>roproxy_client.py\<close>)\<close>

definition FALLBACK_UNIVERSES :: "int list" where
  "FALLBACK_UNIVERSES =
    [994732206, 245662005, 383310974, 47545, 210851291, 4924922222, 185655149,
     10977891899, 5902977743, 8737602446, 1537690962, 1182249705, 142823291,
     1400147734, 920587237, 8149070699, 3351674303, 5569431581, 6381829480,
     4872321990, 4520749081, 13822889, 9498006165, 488667523, 286090429,
     3823781113, 447452406, 2010620636, 2013640567, 3291301470, 511316432,
     2216618303, 3145447021, 5926001758, 3192707582, 275420544, 263761432,
     92012076, 1377239466, 6284583030, 2988862959, 2583109575, 1540764883,
     5763726676, 3019923553, 5938036553]"

text \<open>
  The cache file as \<open>_load_cached_universes\<close> meets it: absent, holding text that
  \<open>json.loads\<close> rejects with \<open>JSONDecodeError\<close>, or holding a JSON value.
\<close>

datatype cache_file = Missing | Unparsable | Parsed json

text \<open>
  Two functions of the Python library are parameters of the model. \<open>fromisoformat\<close> is
  \<open>datetime.fromisoformat\<close> on a string: a naive datetime, a datetime with a UTC offset, or
  \<open>ValueError\<close>. \<open>int_of_str\<close> is \<open>int\<close> on a string, \<open>None\<close> for \<open>ValueError\<close>. Instants and
  durations are integers, in microseconds.
\<close>

datatype iso_result = Naive int | Aware int | Malformed

record pylib =
  fromisoformat :: "string \<Rightarrow> iso_result"
  int_of_str :: "string \<Rightarrow> int option"

text \<open>\<open>int(x)\<close>.\<close>

fun py_int :: "pylib \<Rightarrow> json \<Rightarrow> py_error + int" where
  "py_int lib (JInt n) = Inr n"
| "py_int lib (JBool b) = Inr (if b then 1 else 0)"
| "py_int lib (JStr s) = (case int_of_str lib s of None \<Rightarrow> Inl ValueError | Some n \<Rightarrow> Inr n)"
| "py_int lib _ = Inl TypeError"

text \<open>The objects a \<open>for\<close> over \<open>x\<close> visits: the elements of a list, the characters of a string,
  the keys of a dict.\<close>

fun py_iter :: "json \<Rightarrow> py_error + json list" where
  "py_iter (JArr xs) = Inr xs"
| "py_iter (JStr s) = Inr (map (\<lambda>c. JStr [c]) s)"
| "py_iter (JObj kvs) = Inr (map (\<lambda>(k, v). JStr k) kvs)"
| "py_iter _ = Inl TypeError"

text \<open>\<open>[int(uid) for uid in xs]\<close>: the first element that fails raises.\<close>

fun int_each :: "pylib \<Rightarrow> json list \<Rightarrow> py_error + int list" where
  "int_each lib [] = Inr []"
| "int_each lib (x # xs) =
     (case py_int lib x of
        Inl e \<Rightarrow> Inl e
      | Inr n \<Rightarrow> (case int_each lib xs of Inl e \<Rightarrow> Inl e | Inr ns \<Rightarrow> Inr (n # ns)))"

text \<open>\<open>now\<close> is the reading of \<open>datetime.utcnow()\<close>, \<open>cache_ttl\<close> is \<open>self.cache_ttl\<close>.\<close>

definition load_cached_universes ::
  "pylib \<Rightarrow> int \<Rightarrow> int \<Rightarrow> cache_file \<Rightarrow> py_error + int list option" where
  "load_cached_universes lib now cache_ttl file =
     (case file of
        Missing \<Rightarrow> Inr None
      | Unparsable \<Rightarrow> Inr None
      | Parsed cached \<Rightarrow>
          (case py_get cached ''generated_at'' of
             Inl e \<Rightarrow> Inl e
           | Inr timestamp \<Rightarrow>
               if \<not> truthy timestamp then Inr None
               else
                 (case timestamp of
                    JStr s \<Rightarrow>
                      (case fromisoformat lib s of
                         Malformed \<Rightarrow> Inl ValueError
                       | Aware generated_at \<Rightarrow> Inl TypeError
                       | Naive generated_at \<Rightarrow>
                           if now - generated_at > cache_ttl then Inr None
                           else
                             (case cached of
                                JObj kvs \<Rightarrow>
                                  (case py_iter (dict_get kvs ''universe_ids'' (JArr [])) of
                                     Inl e \<Rightarrow> Inl e
                                   | Inr uids \<Rightarrow>
                                       (case int_each lib uids of
                                          Inl e \<Rightarrow> Inl e
                                        | Inr ids \<Rightarrow> Inr (Some ids)))
                              | _ \<Rightarrow> Inl AttributeError))
                  | _ \<Rightarrow> Inl TypeError)))"

text \<open>\<open>stamp\<close> is the string \<open>datetime.utcnow().isoformat()\<close> gives when the cache is saved.\<close>

definition save_cached_universes :: "string \<Rightarrow> int list \<Rightarrow> cache_file" where
  "save_cached_universes stamp universe_ids =
     Parsed (JObj [(''generated_at'', JStr stamp),
                   (''universe_ids'', JArr (map JInt (dict_fromkeys universe_ids)))])"

text \<open>
  \<open>discovered\<close> is the list \<open>await self._fetch_top_universes(limit)\<close> returns. The result is
  the list returned and the cache file left behind.
\<close>

definition get_top_universe_ids ::
  "pylib \<Rightarrow> int \<Rightarrow> int \<Rightarrow> string \<Rightarrow> int list \<Rightarrow> cache_file \<Rightarrow> int
     \<Rightarrow> py_error + (int list \<times> cache_file)" where
  "get_top_universe_ids lib now cache_ttl stamp discovered file limit =
     (case load_cached_universes lib now cache_ttl file of
        Inl e \<Rightarrow> Inl e
      | Inr cached \<Rightarrow>
          (case cached of
             Some (c # cs) \<Rightarrow> Inr (slice_to limit (c # cs), file)
           | _ \<Rightarrow>
               if discovered \<noteq> [] then Inr (discovered, save_cached_universes stamp discovered)
               else Inr (slice_to limit FALLBACK_UNIVERSES,
                         save_cached_universes stamp FALLBACK_UNIVERSES)))"

text \<open>
  \<open>datetime.fromisoformat\<close> and \<open>int\<close> at the strings of the examples below: the timestamp
  \<open>isoformat\<close> writes for the instant \<open>0\<close>, and two strings that hold neither a timestamp nor
  a number.
\<close>

definition example_lib :: pylib where
  "example_lib =
     \<lparr>fromisoformat = (\<lambda>s. if s = ''1970-01-01T00:00:00'' then Naive 0 else Malformed),
      int_of_str = (\<lambda>s. if s = ''7'' then Some 7 else None)\<rparr>"

section \<open>Double-precision numbers\<close>

text \<open>
  A \<open>DOUBLE\<close> of DuckDB and a \<open>float\<close> of Python are IEEE 754 binary64 numbers. A finite one
  is modelled by the rational number it stands for, and an operation gives the exact result
  rounded to the nearest double, a tie going to the even significand. A double has a
  significand of 53 bits; below \<open>2 powi (- 1022)\<close> the doubles are \<open>2 powi (- 1074)\<close> apart.
  Infinities and NaN are not modelled: the quotient of a 32-bit integer by a positive one,
  and a hundred times it, are far inside the range.
\<close>

text \<open>For \<open>x > 0\<close>, the exponent \<open>e\<close> with \<open>2 powi e \<le> x < 2 powi (e + 1)\<close>.\<close>

definition binade :: "rat \<Rightarrow> int" where
  "binade x = (let (a, b) = quotient_of x; d = bitlen a - bitlen b
               in if 2 powi d \<le> x then d else d - 1)"

definition round_half_even :: "rat \<Rightarrow> int" where
  "round_half_even m = (let f = \<lfloor>m\<rfloor>; r = m - of_int f
     in if r < 1 / 2 then f else if 1 / 2 < r then f + 1 else if even f then f else f + 1)"

definition round_double :: "rat \<Rightarrow> rat" where
  "round_double x =
     (if x = 0 then 0
      else let ulp = 2 powi (max (binade \<bar>x\<bar>) (- 1022) - 52)
           in sgn x * of_int (round_half_even (\<bar>x\<bar> / ulp)) * ulp)"

text \<open>The conversion of an \<open>INTEGER\<close>, or of a \<open>DECIMAL\<close> with an integer value, to \<open>DOUBLE\<close>.\<close>

definition to_double :: "int \<Rightarrow> rat" where
  "to_double n = round_double (of_int n)"

text \<open>
  The expression of the specification, \<open>(current - baseline) / baseline\<close>, as Python evaluates
  it on integers: \<open>a / b\<close> is the double nearest to the quotient of \<open>a\<close> by \<open>b\<close>. The growth
  rate of the query is compared with it below.
\<close>

definition py_truediv :: "int \<Rightarrow> int \<Rightarrow> rat" where
  "py_truediv a b = round_double (of_int a / of_int b)"

section \<open>Growth window evaluator (\<open>_read_growth_candidates\<close>)\<close>

text \<open>
  The rows the query reads, typed as the columns are: \<open>name TEXT\<close> and \<open>ccu INTEGER\<close> may be
  \<open>NULL\<close>; \<open>universe_id\<close> and \<open>timestamp\<close> form the primary key of \<open>games\<close>. Timestamps are
  in microseconds. The difference \<open>cur.ccu - prev.ccu\<close> is the integer one: the model does
  not cover a difference outside the 32 bits of \<open>INTEGER\<close>, on which DuckDB raises. The
  growth rate is a \<open>DOUBLE\<close>, the growth percentage and the threshold are Python floats.
\<close>

record game_row =
  g_universe_id :: int
  g_name :: "string option"
  g_ccu :: "int option"
  g_timestamp :: int

record metadata_row =
  m_universe_id :: int
  m_name :: "string option"

record growth_row =
  r_universe_id :: int
  r_game_name :: "string option"
  r_current_ccu :: "int option"
  r_week_ago_ccu :: "int option"
  r_growth_rate :: "rat option"
  r_current_timestamp :: int

definition seven_days :: int where
  "seven_days = 7 * 24 * 3600 * 1000000"

text \<open>
  \<open>ROW_NUMBER() OVER (... ORDER BY timestamp DESC) = 1\<close> inside one partition: a row with the
  greatest timestamp. The primary key leaves no ties; were there any, SQL would pick any of
  the tied rows and the model picks the first.
\<close>

fun newest :: "game_row list \<Rightarrow> game_row option" where
  "newest [] = None"
| "newest (r # rs) =
     (case newest rs of
        None \<Rightarrow> Some r
      | Some b \<Rightarrow> if g_timestamp b > g_timestamp r then Some b else Some r)"

definition filtered_latest :: "game_row list \<Rightarrow> int \<Rightarrow> game_row option" where
  "filtered_latest gs uid = newest (filter (\<lambda>r. g_universe_id r = uid) gs)"

definition filtered_week_ago :: "int \<Rightarrow> game_row list \<Rightarrow> int \<Rightarrow> game_row option" where
  "filtered_week_ago now gs uid =
     newest (filter (\<lambda>r. g_universe_id r = uid \<and> g_timestamp r \<le> now - seven_days) gs)"

text \<open>
  \<open>((cur.ccu - prev.ccu) * 1.0) / NULLIF(prev.ccu, 0)\<close>: \<open>NULL\<close> when an operand is. The
  product with \<open>1.0\<close> is a \<open>DECIMAL\<close> with the value of the difference; the division is the
  one of \<open>DOUBLE\<close>, to which both operands are converted.
\<close>

definition nullif0 :: "int option \<Rightarrow> int option" where
  "nullif0 x = (case x of None \<Rightarrow> None | Some v \<Rightarrow> if v = 0 then None else Some v)"

definition growth_rate :: "int option \<Rightarrow> int option \<Rightarrow> rat option" where
  "growth_rate cur_ccu prev_ccu =
     (case (cur_ccu, nullif0 prev_ccu) of
        (Some c, Some p) \<Rightarrow> Some (round_double (to_double (c - p) / to_double p))
      | _ \<Rightarrow> None)"

text \<open>\<open>WHERE prev.ccu > 0\<close>: a \<open>NULL\<close> comparison does not keep the row.\<close>

definition positive :: "int option \<Rightarrow> bool" where
  "positive x = (case x of None \<Rightarrow> False | Some v \<Rightarrow> 0 < v)"

text \<open>\<open>LEFT JOIN game_metadata meta\<close>: the names of the matching rows, or one \<open>NULL\<close>.\<close>

definition left_join_meta :: "metadata_row list \<Rightarrow> int \<Rightarrow> string option list" where
  "left_join_meta metas uid =
     (case filter (\<lambda>m. m_universe_id m = uid) metas of
        [] \<Rightarrow> [None]
      | ms \<Rightarrow> map m_name ms)"

definition coalesce :: "'a option \<Rightarrow> 'a option \<Rightarrow> 'a option" where
  "coalesce a b = (case a of None \<Rightarrow> b | Some v \<Rightarrow> Some v)"

text \<open>The rows of the query for one universe id.\<close>

definition growth_rows_of :: "int \<Rightarrow> game_row list \<Rightarrow> metadata_row list \<Rightarrow> int \<Rightarrow> growth_row list" where
  "growth_rows_of now gs metas uid =
     (case (filtered_latest gs uid, filtered_week_ago now gs uid) of
        (Some cur, Some prev) \<Rightarrow>
          if positive (g_ccu prev) then
            map (\<lambda>meta_name.
                   \<lparr>r_universe_id = g_universe_id cur,
                    r_game_name = coalesce meta_name (g_name cur),
                    r_current_ccu = g_ccu cur,
                    r_week_ago_ccu = g_ccu prev,
                    r_growth_rate = growth_rate (g_ccu cur) (g_ccu prev),
                    r_current_timestamp = g_timestamp cur\<rparr>)
                (left_join_meta metas uid)
          else []
      | _ \<Rightarrow> [])"

text \<open>The query: SQL fixes no order of the rows; the model lists the universe ids in the
  order of the table.\<close>

definition growth_query :: "int \<Rightarrow> game_row list \<Rightarrow> metadata_row list \<Rightarrow> growth_row list" where
  "growth_query now gs metas =
     concat (map (growth_rows_of now gs metas) (dict_fromkeys (map g_universe_id gs)))"

record growth_candidate =
  c_universe_id :: int
  c_game_name :: string
  c_current_ccu :: int
  c_week_ago_ccu :: int
  c_growth_percent :: rat
  c_current_timestamp :: int

text \<open>\<open>x or d\<close> on a nullable text and on a nullable integer.\<close>

definition text_or :: "string option \<Rightarrow> string \<Rightarrow> string" where
  "text_or x d = (case x of None \<Rightarrow> d | Some s \<Rightarrow> if s = [] then d else s)"

definition int_or :: "int option \<Rightarrow> int \<Rightarrow> int" where
  "int_or x d = (case x of None \<Rightarrow> d | Some n \<Rightarrow> if n = 0 then d else n)"

text \<open>
  The \<open>for row in rows\<close> loop: a row is skipped (\<open>continue\<close>) or appended.
  \<open>growth_threshold\<close> is the finite number the caller passes, a float or an integer, as its
  value: Python compares two numbers exactly. \<open>growth_rate * 100.0\<close> is a product of floats.
\<close>

definition candidate_of_row :: "rat \<Rightarrow> growth_row \<Rightarrow> growth_candidate list" where
  "candidate_of_row growth_threshold row =
     (case r_growth_rate row of
        None \<Rightarrow> []
      | Some rate \<Rightarrow>
          if rate < growth_threshold then []
          else [\<lparr>c_universe_id = r_universe_id row,
                 c_game_name = text_or (r_game_name row) ''Unknown'',
                 c_current_ccu = int_or (r_current_ccu row) 0,
                 c_week_ago_ccu = int_or (r_week_ago_ccu row) 0,
                 c_growth_percent = round_double (rate * 100),
                 c_current_timestamp = r_current_timestamp row\<rparr>])"

definition read_growth_candidates ::
  "int \<Rightarrow> rat \<Rightarrow> game_row list \<Rightarrow> metadata_row list \<Rightarrow> growth_candidate list" where
  "read_growth_candidates now growth_threshold gs metas =
     concat (map (candidate_of_row growth_threshold) (growth_query now gs metas))"

section \<open>Mention correlator (\<open>detect_mechanic_spikes\<close>)\<close>

record video =
  v_video_id :: string
  v_channel_title :: "string option"
  v_title :: "string option"
  v_published_at :: "int option"
  v_view_count :: "int option"

record mechanic_spike =
  s_universe_id :: int
  s_game_name :: string
  s_current_ccu :: int
  s_week_ago_ccu :: int
  s_growth_percent :: rat
  s_published_at :: "int option"
  s_mechanic :: string
  s_video_title :: string
  s_video_url :: string
  s_channel_title :: "string option"
  s_detected_at :: int

text \<open>\<open>_fetch_recent_videos\<close>: \<open>WHERE published_at >= ?\<close>.\<close>

definition fetch_recent_videos :: "int \<Rightarrow> video list \<Rightarrow> video list" where
  "fetch_recent_videos since vs =
     filter (\<lambda>v. case v_published_at v of None \<Rightarrow> False | Some p \<Rightarrow> since \<le> p) vs"

text \<open>
  The body of the inner loop for one candidate and one video: nothing (\<open>continue\<close>) or one
  spike. \<open>clock\<close> gives the reading of \<open>datetime.now\<close> taken for the pair.
\<close>

definition spike_of ::
  "(string \<Rightarrow> string \<Rightarrow> rat) \<Rightarrow> (growth_candidate \<Rightarrow> video \<Rightarrow> int) \<Rightarrow> growth_candidate \<Rightarrow> video
     \<Rightarrow> mechanic_spike list" where
  "spike_of partial_ratio clock candidate v =
     (let title = (case v_title v of None \<Rightarrow> [] | Some t \<Rightarrow> t) in
      if title = [] then []
      else if \<not> video_matches_game partial_ratio (c_game_name candidate) title then []
      else [\<lparr>s_universe_id = c_universe_id candidate,
             s_game_name = c_game_name candidate,
             s_current_ccu = c_current_ccu candidate,
             s_week_ago_ccu = c_week_ago_ccu candidate,
             s_growth_percent = c_growth_percent candidate,
             s_published_at = v_published_at v,
             s_mechanic = extract_mechanic title,
             s_video_title = title,
             s_video_url = ''https://youtube.com/watch?v='' @ v_video_id v,
             s_channel_title = v_channel_title v,
             s_detected_at = clock candidate v\<rparr>])"

definition correlate ::
  "(string \<Rightarrow> string \<Rightarrow> rat) \<Rightarrow> (growth_candidate \<Rightarrow> video \<Rightarrow> int) \<Rightarrow> growth_candidate list
     \<Rightarrow> video list \<Rightarrow> mechanic_spike list" where
  "correlate partial_ratio clock candidates videos =
     concat (map (\<lambda>candidate. concat (map (spike_of partial_ratio clock candidate) videos))
                 candidates)"

record detector_db =
  d_games :: "game_row list"
  d_game_metadata :: "metadata_row list"
  d_youtube_videos :: "video list"
  d_mechanic_spikes :: "mechanic_spike list"

text \<open>
  \<open>detect_mechanic_spikes\<close>: the spikes returned and the database left behind. \<open>sql_now\<close> is
  \<open>current_timestamp\<close> in the query, \<open>now\<close> the reading of \<open>datetime.now\<close> for \<open>since\<close>.
\<close>

definition detect_mechanic_spikes ::
  "(string \<Rightarrow> string \<Rightarrow> rat) \<Rightarrow> (growth_candidate \<Rightarrow> video \<Rightarrow> int) \<Rightarrow> int \<Rightarrow> int
     \<Rightarrow> int \<Rightarrow> rat \<Rightarrow> bool \<Rightarrow> detector_db \<Rightarrow> mechanic_spike list \<times> detector_db" where
  "detect_mechanic_spikes partial_ratio clock sql_now now lookback_hours growth_threshold persist db =
     (let candidates = read_growth_candidates sql_now growth_threshold (d_games db) (d_game_metadata db)
      in if candidates = [] then ([], db)
         else
           (let since = now - lookback_hours * 3600 * 1000000;
                videos = fetch_recent_videos since (d_youtube_videos db);
                spikes = correlate partial_ratio clock candidates videos
            in (spikes,
                if persist \<and> spikes \<noteq> []
                then db\<lparr>d_mechanic_spikes := d_mechanic_spikes db @ spikes\<rparr>
                else db)))"

section \<open>Inputs of the examples\<close>

text \<open>A score function that never reaches the threshold, so that a match can only come from
  the keyword rule; a network on which every request fails; fixed clocks.\<close>

definition zero_ratio :: "string \<Rightarrow> string \<Rightarrow> rat" where
  "zero_ratio a b = 0"

definition offline :: "int \<Rightarrow> http_result" where
  "offline uid = RequestError"

definition unavailable :: "int \<Rightarrow> http_result" where
  "unavailable uid = Response 503 BodyError"

definition upsert_clock :: "int \<Rightarrow> int" where
  "upsert_clock uid = 101"

definition detection_clock :: "growth_candidate \<Rightarrow> video \<Rightarrow> int" where
  "detection_clock candidate v = 1000000000007"

definition empty_store :: connection where
  "empty_store = \<lparr>committed = \<lparr>games = [], game_metadata = []\<rparr>, open_transaction = None\<rparr>"

definition test_game_now :: game_row where
  "test_game_now = \<lparr>g_universe_id = 123, g_name = Some ''Test Game'', g_ccu = Some 10000,
     g_timestamp = 1000000000000\<rparr>"

definition test_game_week_ago :: game_row where
  "test_game_week_ago = \<lparr>g_universe_id = 123, g_name = Some ''Test Game'', g_ccu = Some 5000,
     g_timestamp = 395200000000\<rparr>"

definition test_metadata :: metadata_row where
  "test_metadata = \<lparr>m_universe_id = 123, m_name = Some ''Test Game''\<rparr>"

definition titled_video :: video where
  "titled_video = \<lparr>v_video_id = ''vid1'', v_channel_title = Some ''TestChannel'',
     v_title = Some ''NEW Test Game Mechanic Update!'', v_published_at = Some 1000000000000,
     v_view_count = Some 50000\<rparr>"

definition untitled_video :: video where
  "untitled_video = \<lparr>v_video_id = ''vid2'', v_channel_title = Some ''TestChannel'',
     v_title = None, v_published_at = Some 1000000000000, v_view_count = Some 9\<rparr>"

definition blank_video :: video where
  "blank_video = \<lparr>v_video_id = ''vid3'', v_channel_title = Some ''TestChannel'',
     v_title = Some [], v_published_at = Some 1000000000000, v_view_count = Some 9\<rparr>"

definition test_db :: detector_db where
  "test_db = \<lparr>d_games = [test_game_now, test_game_week_ago],
     d_game_metadata = [test_metadata],
     d_youtube_videos = [titled_video, untitled_video, blank_video],
     d_mechanic_spikes = []\<rparr>"

definition test_candidate :: growth_candidate where
  "test_candidate = \<lparr>c_universe_id = 123, c_game_name = ''Test Game'', c_current_ccu = 10000,
     c_week_ago_ccu = 5000, c_growth_percent = 100, c_current_timestamp = 1000000000000\<rparr>"

definition fresh_cache :: cache_file where
  "fresh_cache = Parsed (JObj [(''generated_at'', JStr ''1970-01-01T00:00:00''),
                               (''universe_ids'', JArr (map JInt [1, 2, 3]))])"

definition broken_cache :: cache_file where
  "broken_cache = Parsed (JObj [(''generated_at'', JStr ''yesterday''),
                                (''universe_ids'', JArr [JInt 1])])"

definition four_hours :: int where
  "four_hours = 4 * 3600 * 1000000"

definition flat_week_ago :: game_row where
  "flat_week_ago = \<lparr>g_universe_id = 123, g_name = Some ''Test Game'', g_ccu = Some 0,
     g_timestamp = 395200000000\<rparr>"

definition six_days_ago :: game_row where
  "six_days_ago = \<lparr>g_universe_id = 123, g_name = Some ''Test Game'', g_ccu = Some 5000,
     g_timestamp = 481600000000\<rparr>"

text \<open>The float \<open>0.1\<close>, and a universe that went from 1000 to 1100.\<close>

definition float_tenth :: rat where
  "float_tenth = 3602879701896397 / 36028797018963968"

definition tenth_up_now :: game_row where
  "tenth_up_now = \<lparr>g_universe_id = 7, g_name = Some ''Ten'', g_ccu = Some 1100,
     g_timestamp = 1000000000000\<rparr>"

definition tenth_up_week_ago :: game_row where
  "tenth_up_week_ago = \<lparr>g_universe_id = 7, g_name = Some ''Ten'', g_ccu = Some 1000,
     g_timestamp = 395200000000\<rparr>"

section \<open>Properties of the text functions\<close>

lemma py_in_iff: "py_in a b \<longleftrightarrow> (\<exists>p s. b = p @ a @ s)"
  by (simp add: py_in_def sublist_def)

lemma take_eq_iff_prefix: "take (length k) t = k \<longleftrightarrow> prefix k t"
proof
  assume "take (length k) t = k"
  then have "prefix (take (length k) t) t \<Longrightarrow> prefix k t" by simp
  then show "prefix k t" by (simp add: take_is_prefix)
next
  assume "prefix k t"
  then obtain zs where "t = k @ zs" by (auto simp: prefix_def)
  then show "take (length k) t = k" by simp
qed

lemma match_alternatives_None:
  "match_alternatives ks s = None \<longleftrightarrow> (\<forall>k \<in> set ks. \<not> prefix k (lower s))"
  by (induction ks) (auto simp: take_eq_iff_prefix)

lemma match_here_None:
  "match_here s = None \<longleftrightarrow> (\<forall>k \<in> set MECHANIC_KEYWORDS. \<not> prefix k (lower s))"
  by (simp add: match_here_def match_alternatives_None split: option.splits)
     (metis match_alternatives_None option.distinct(1))

text \<open>The pattern matches somewhere in a title exactly when a trigger keyword occurs in the
  lower-cased title.\<close>

lemma regex_search_None:
  "regex_search s = None \<longleftrightarrow> (\<forall>k \<in> set MECHANIC_KEYWORDS. \<not> py_in k (lower s))"
proof (induction s)
  case Nil
  show ?case by (simp add: match_here_None py_in_def lower_def)
next
  case (Cons c cs)
  have "regex_search (c # cs) = None \<longleftrightarrow> match_here (c # cs) = None \<and> regex_search cs = None"
    by (simp split: option.splits)
  also have "\<dots> \<longleftrightarrow> (\<forall>k \<in> set MECHANIC_KEYWORDS.
      \<not> prefix k (lower (c # cs)) \<and> \<not> py_in k (lower cs))"
    using Cons.IH by (auto simp: match_here_None)
  also have "\<dots> \<longleftrightarrow> (\<forall>k \<in> set MECHANIC_KEYWORDS. \<not> py_in k (lower (c # cs)))"
    by (simp add: py_in_def lower_def sublist_Cons_right)
  finally show ?case .
qed

lemma match_alternatives_Some:
  "match_alternatives ks s = Some r \<Longrightarrow>
     \<exists>k \<in> set ks. s = take (length k) s @ r \<and> lower (take (length k) s) = k"
  by (induction ks) (auto simp: lower_def take_map split: if_splits)

lemma is_linefeed_separator: "is_linefeed c \<Longrightarrow> is_separator c"
  by (simp add: is_linefeed_def is_separator_def isspace_def)

text \<open>What group 1 holds: the title is a keyword (in any case), a run of separators, the
  group, and a rest that is empty or starts at a line feed.\<close>

lemma match_here_shape:
  assumes "match_here s = Some g"
  shows "\<exists>kw seps rest. s = kw @ seps @ g @ rest
           \<and> lower kw \<in> set MECHANIC_KEYWORDS
           \<and> (\<forall>c \<in> set seps. is_separator c)
           \<and> (\<forall>c \<in> set g. \<not> is_linefeed c)
           \<and> (g \<noteq> [] \<longrightarrow> \<not> is_separator (hd g))
           \<and> (rest \<noteq> [] \<longrightarrow> g \<noteq> [] \<and> is_linefeed (hd rest))"
proof -
  from assms obtain r where r: "match_alternatives MECHANIC_KEYWORDS s = Some r"
    and g: "g = takeWhile (\<lambda>c. \<not> is_linefeed c) (dropWhile is_separator r)"
    by (auto simp: match_here_def split: option.splits)
  from match_alternatives_Some [OF r] obtain k where k: "k \<in> set MECHANIC_KEYWORDS"
    and s: "s = take (length k) s @ r" and low: "lower (take (length k) s) = k"
    by blast
  define kw where "kw = take (length k) s"
  define seps where "seps = takeWhile is_separator r"
  define after where "after = dropWhile is_separator r"
  define rest where "rest = dropWhile (\<lambda>c. \<not> is_linefeed c) after"
  have r_split: "r = seps @ after" by (simp add: seps_def after_def)
  have after_split: "after = g @ rest" by (simp add: g rest_def after_def)
  have 1: "s = kw @ seps @ g @ rest" using s r_split after_split kw_def by simp
  have 2: "lower kw \<in> set MECHANIC_KEYWORDS" using low k kw_def by simp
  have 3: "\<forall>c \<in> set seps. is_separator c"
    by (auto simp: seps_def dest: set_takeWhileD)
  have 4: "\<forall>c \<in> set g. \<not> is_linefeed c"
    by (auto simp: g dest: set_takeWhileD)
  have hd_after: "after \<noteq> [] \<Longrightarrow> \<not> is_separator (hd after)"
    unfolding after_def by (rule hd_dropWhile)
  have 5: "g \<noteq> [] \<longrightarrow> \<not> is_separator (hd g)"
    using hd_after after_split by (cases g) auto
  have hd_rest: "rest \<noteq> [] \<Longrightarrow> is_linefeed (hd rest)"
    unfolding rest_def using hd_dropWhile [of "\<lambda>c. \<not> is_linefeed c" after] by simp
  have 6: "rest \<noteq> [] \<longrightarrow> g \<noteq> [] \<and> is_linefeed (hd rest)"
  proof
    assume ne: "rest \<noteq> []"
    have "g \<noteq> []"
    proof
      assume "g = []"
      then have "after = rest" using after_split by simp
      then show False using ne hd_after hd_rest is_linefeed_separator by auto
    qed
    then show "g \<noteq> [] \<and> is_linefeed (hd rest)" using hd_rest ne by simp
  qed
  from 1 2 3 4 5 6 show ?thesis by blast
qed

text \<open>The match \<open>search\<close> returns is the leftmost one.\<close>

lemma regex_search_shape:
  "regex_search title = Some g \<Longrightarrow>
     \<exists>pre s. title = pre @ s \<and> match_here s = Some g
        \<and> (\<forall>i < length pre. match_here (drop i title) = None)"
proof (induction title)
  case Nil
  then show ?case by simp
next
  case (Cons c cs)
  show ?case
  proof (cases "match_here (c # cs)")
    case (Some g')
    with Cons.prems have "match_here (c # cs) = Some g" by simp
    then have "c # cs = [] @ (c # cs) \<and> match_here (c # cs) = Some g
        \<and> (\<forall>i < length ([]::string). match_here (drop i (c # cs)) = None)" by simp
    then show ?thesis by blast
  next
    case None
    with Cons.prems have "regex_search cs = Some g" by simp
    from Cons.IH [OF this] obtain pre s where ps: "cs = pre @ s" "match_here s = Some g"
      "\<forall>i < length pre. match_here (drop i cs) = None" by blast
    have "\<forall>i < length (c # pre). match_here (drop i (c # cs)) = None"
    proof (intro allI impI)
      fix i assume "i < length (c # pre)"
      then show "match_here (drop i (c # cs)) = None"
        using None ps(3) by (cases i) auto
    qed
    with ps(1,2) have "c # cs = (c # pre) @ s \<and> match_here s = Some g
        \<and> (\<forall>i < length (c # pre). match_here (drop i (c # cs)) = None)" by simp
    then show ?thesis by blast
  qed
qed

lemma length_extract_mechanic: "length (extract_mechanic title) \<le> 120"
  by (simp add: extract_mechanic_def split: option.splits)

lemma keyword_loop_iff:
  "keyword_loop ks game_name video_title \<longleftrightarrow>
     (\<exists>k \<in> set ks. py_in k (lower video_title)) \<and> py_in (lower game_name) (lower video_title)"
  by (induction ks) auto

text \<open>
  Claim C2. For every score function, game name and video title, \<open>_video_matches_game\<close>
  returns true exactly when the partial-ratio score of the lower-cased name and the
  lower-cased title is at least 82, or the lower-cased title contains one of the keywords
  new, update, secret, mechanic, code, feature, quest, event and the lower-cased name occurs
  in the lower-cased title as a contiguous run. Case folding is \<open>str.lower\<close>, which is what
  the code applies.
\<close>

theorem video_matches_game_iff:
  "video_matches_game partial_ratio game_name video_title \<longleftrightarrow>
     (partial_ratio (lower game_name) (lower video_title) \<ge> 82
      \<or> ((\<exists>k \<in> {''new'', ''update'', ''secret'', ''mechanic'', ''code'', ''feature'',
                  ''quest'', ''event''}. py_in k (lower video_title))
          \<and> py_in (lower game_name) (lower video_title)))"
  by (simp add: video_matches_game_def keyword_loop_iff FUZZ_THRESHOLD_def KEYWORD_HINTS_def Let_def)

theorem video_matches_game_iff_witness:
  "py_in ''new'' (lower ''NEW Brookhaven Update 2025'')
   \<and> py_in (lower ''Brookhaven'') (lower ''NEW Brookhaven Update 2025'')
   \<and> video_matches_game zero_ratio ''Brookhaven'' ''NEW Brookhaven Update 2025''"
proof -
  have k: "py_in ''new'' (lower ''NEW Brookhaven Update 2025'')" by code_simp
  have n: "py_in (lower ''Brookhaven'') (lower ''NEW Brookhaven Update 2025'')" by code_simp
  show ?thesis
    using k n video_matches_game_iff [of zero_ratio "''Brookhaven''" "''NEW Brookhaven Update 2025''"]
    by auto
qed

text \<open>
  Claim C8, as amended. When a trigger keyword (new, secret, update, introducing, added,
  unlock, mechanic, feature, quest, code, in any case) occurs in the title, the label is the
  text the pattern captures after the leftmost keyword and its separators, with the white
  space at its ends stripped, cut to 120 characters; when none occurs, the label is the
  first 120 characters of the title. The label never has more than 120 characters.
\<close>

theorem extract_mechanic_label:
  "((\<exists>k \<in> set MECHANIC_KEYWORDS. py_in k (lower title)) \<longrightarrow>
      (\<exists>g. regex_search title = Some g \<and> extract_mechanic title = take 120 (strip g)))
   \<and> ((\<forall>k \<in> set MECHANIC_KEYWORDS. \<not> py_in k (lower title)) \<longrightarrow>
      regex_search title = None \<and> extract_mechanic title = take 120 title)
   \<and> length (extract_mechanic title) \<le> 120"
proof (intro conjI impI)
  assume "\<exists>k \<in> set MECHANIC_KEYWORDS. py_in k (lower title)"
  then have "regex_search title \<noteq> None" by (simp add: regex_search_None)
  then obtain g where g: "regex_search title = Some g" by auto
  then have "extract_mechanic title = take 120 (strip g)" by (simp add: extract_mechanic_def)
  with g show "\<exists>g. regex_search title = Some g \<and> extract_mechanic title = take 120 (strip g)"
    by blast
next
  assume "\<forall>k \<in> set MECHANIC_KEYWORDS. \<not> py_in k (lower title)"
  then show "regex_search title = None" by (simp add: regex_search_None)
next
  assume "\<forall>k \<in> set MECHANIC_KEYWORDS. \<not> py_in k (lower title)"
  then have "regex_search title = None" by (simp add: regex_search_None)
  then show "extract_mechanic title = take 120 title" by (simp add: extract_mechanic_def)
next
  show "length (extract_mechanic title) \<le> 120" by (rule length_extract_mechanic)
qed

theorem extract_mechanic_label_witness:
  "py_in ''new'' (lower ''NEW Dragon Quest Update!'')
   \<and> extract_mechanic ''NEW Dragon Quest Update!'' = ''Dragon Quest Update!''
   \<and> extract_mechanic ''Blox Fruits Is Amazing'' = ''Blox Fruits Is Amazing''"
proof -
  have h0: "py_in ''new'' (lower ''NEW Dragon Quest Update!'')" by code_simp
  have m: "''new'' \<in> set MECHANIC_KEYWORDS" by (simp add: MECHANIC_KEYWORDS_def)
  have h1: "\<exists>k \<in> set MECHANIC_KEYWORDS. py_in k (lower ''NEW Dragon Quest Update!'')"
    using h0 m by blast
  have h2: "\<forall>k \<in> set MECHANIC_KEYWORDS. \<not> py_in k (lower ''Blox Fruits Is Amazing'')"
    by code_simp
  have g: "regex_search ''NEW Dragon Quest Update!'' = Some ''Dragon Quest Update!''"
    by code_simp
  have s: "take 120 (strip ''Dragon Quest Update!'') = ''Dragon Quest Update!''"
    by code_simp
  have t: "take 120 ''Blox Fruits Is Amazing'' = ''Blox Fruits Is Amazing''"
    by simp
  from h1 extract_mechanic_label [of "''NEW Dragon Quest Update!''"] g s
  have a: "extract_mechanic ''NEW Dragon Quest Update!'' = ''Dragon Quest Update!''"
    by auto
  from h2 extract_mechanic_label [of "''Blox Fruits Is Amazing''"] t
  have b: "extract_mechanic ''Blox Fruits Is Amazing'' = ''Blox Fruits Is Amazing''"
    by auto
  from h0 a b show ?thesis by blast
qed

text \<open>The claim as first stated has the captured text cut to 120 characters and nothing
  else done to it. On the title \<open>new a \<close> the keyword occurs, the captured text is \<open>a \<close>,
  and the label is \<open>a\<close>: the trailing blank is stripped.\<close>

theorem extract_mechanic_unstripped_counterexample:
  "py_in ''new'' (lower ''new a '')
   \<and> regex_search ''new a '' = Some ''a ''
   \<and> extract_mechanic ''new a '' = ''a''
   \<and> extract_mechanic ''new a '' \<noteq> take 120 ''a ''"
  by code_simp

section \<open>Properties of the snapshot poller\<close>

lemma set_dict_fromkeys: "set (dict_fromkeys xs) = set xs"
  by (induction xs) auto

lemma distinct_dict_fromkeys: "distinct (dict_fromkeys xs)"
  by (induction xs) (auto simp: set_dict_fromkeys)

lemma dict_fromkeys_distinct: "distinct xs \<Longrightarrow> dict_fromkeys xs = xs"
proof (induction xs)
  case Nil
  then show ?case by simp
next
  case (Cons x xs)
  then have "filter (\<lambda>y. y \<noteq> x) xs = xs" by (auto intro: filter_True)
  with Cons show ?case by simp
qed

lemma universe_id_build_snapshot:
  "build_snapshot uid payload = Inr (Some s) \<Longrightarrow> universe_id s = uid"
  by (auto simp: build_snapshot_def Let_def split: sum.splits if_splits json.splits)

lemma universe_id_fetch: "universe_id (fetch_universe_snapshot uid res) = uid"
  by (auto simp: fetch_universe_snapshot_def try_fetch_def zero_snapshot_def
      dest: universe_id_build_snapshot
      split: sum.splits option.splits http_result.splits body.splits if_splits)

lemma universe_ids_gather:
  "map universe_id (gather_snapshots net universe_ids) = dict_fromkeys universe_ids"
  by (simp add: gather_snapshots_def universe_id_fetch comp_def)

lemma fetch_failed_zero:
  assumes "res = RequestError
         \<or> (\<exists>status b. res = Response status b \<and> status \<noteq> 200)
         \<or> res = Response 200 BodyError
         \<or> (\<exists>kvs. res = Response 200 (Body (JObj kvs)) \<and> \<not> truthy (dict_get kvs ''data'' JNull))"
  shows "fetch_universe_snapshot uid res = zero_snapshot uid"
  using assms
  by (auto simp: fetch_universe_snapshot_def try_fetch_def build_snapshot_def)

text \<open>
  Claim C5. When the request for a candidate fails (the request raises, as on a network
  error or a time-out; the status is not 200; the body cannot be decoded; or the payload
  has no \<open>data\<close> or an empty one), \<open>_fetch_universe_snapshot\<close> returns the snapshot with
  metric 0, name \<open>Unknown\<close> and every optional field \<open>None\<close>. It returns a snapshot for every
  answer of the network, so the batch goes on: the gathered snapshots are one per
  de-duplicated id, in order, and the zero-value snapshot of the failed candidate is among
  them.
\<close>

theorem fetch_failure_degrades:
  assumes "net uid = RequestError
         \<or> (\<exists>status b. net uid = Response status b \<and> status \<noteq> 200)
         \<or> net uid = Response 200 BodyError
         \<or> (\<exists>kvs. net uid = Response 200 (Body (JObj kvs))
                \<and> \<not> truthy (dict_get kvs ''data'' JNull))"
  shows "fetch_universe_snapshot uid (net uid) =
           \<lparr>universe_id = uid, name = JStr ''Unknown'', ccu = JInt 0, root_place_id = JNull,
            description = JNull, creator_id = JNull, creator_name = JNull, genre = JNull,
            visits = JNull\<rparr>
       \<and> map universe_id (gather_snapshots net universe_ids) = dict_fromkeys universe_ids
       \<and> (uid \<in> set universe_ids \<longrightarrow>
            \<lparr>universe_id = uid, name = JStr ''Unknown'', ccu = JInt 0, root_place_id = JNull,
             description = JNull, creator_id = JNull, creator_name = JNull, genre = JNull,
             visits = JNull\<rparr> \<in> set (gather_snapshots net universe_ids))"
proof -
  have z: "fetch_universe_snapshot uid (net uid) = zero_snapshot uid"
    using assms by (rule fetch_failed_zero)
  have "uid \<in> set universe_ids \<Longrightarrow> zero_snapshot uid \<in> set (gather_snapshots net universe_ids)"
  proof -
    assume "uid \<in> set universe_ids"
    then have "uid \<in> set (dict_fromkeys universe_ids)" by (simp add: set_dict_fromkeys)
    then have "fetch_universe_snapshot uid (net uid) \<in> set (gather_snapshots net universe_ids)"
      by (auto simp: gather_snapshots_def)
    with z show ?thesis by simp
  qed
  with z show ?thesis by (simp add: universe_ids_gather zero_snapshot_def)
qed

theorem fetch_failure_degrades_witness:
  "unavailable 2 = Response 503 BodyError
   \<and> fetch_universe_snapshot 2 (unavailable 2) =
           \<lparr>universe_id = 2, name = JStr ''Unknown'', ccu = JInt 0, root_place_id = JNull,
            description = JNull, creator_id = JNull, creator_name = JNull, genre = JNull,
            visits = JNull\<rparr>
   \<and> map universe_id (gather_snapshots unavailable [1, 2, 1]) = [1, 2]"
  using fetch_failure_degrades [where net = unavailable and uid = 2 and universe_ids = "[1, 2, 1]"]
  by (simp add: unavailable_def)

text \<open>In auto-commit mode every statement that has run is committed; inside a transaction
  nothing is before \<open>commit\<close>.\<close>

lemma autocommit_writes_through:
  "open_transaction db = None \<Longrightarrow>
     committed (fold execute sts db) = fold apply_statement sts (committed db)
     \<and> open_transaction (fold execute sts db) = None"
  by (induction sts arbitrary: db) (auto simp: execute_def)

lemma transaction_keeps_committed:
  "open_transaction db = Some w \<Longrightarrow>
     committed (fold execute sts db) = committed db
     \<and> open_transaction (fold execute sts db) = Some (fold apply_statement sts w)"
  by (induction sts arbitrary: db w) (auto simp: execute_def)

lemma failing_poll_in_autocommit:
  "open_transaction db = None \<Longrightarrow>
     committed (poll_top_games_failing k net timestamp clock universe_ids db)
       = fold apply_statement (take k (batch_statements net timestamp clock universe_ids))
           (committed db)"
  by (simp add: poll_top_games_failing_def autocommit_writes_through)

text \<open>
  Claim C3. The claim asks that a poll which fails part-way leaves all of the batch's rows
  in \<open>games\<close> or none of them. \<open>poll_top_games\<close> runs its statements on a connection on which
  no transaction was opened, so each one is committed as it runs. For the batch of the
  universes 1 and 2 on an empty store, a failure at the \<open>INSERT\<close> of universe 2 (statement
  number 5) leaves the row of universe 1 committed and not that of universe 2: one of the
  two rows the completed run commits.
\<close>

theorem failed_batch_leaves_partial_rows:
  "games (committed (poll_top_games_failing 5 offline 100 upsert_clock [1, 2] empty_store))
     = [(1, JStr ''Unknown'', JInt 0, 100)]
   \<and> games (committed (poll_top_games offline 100 upsert_clock [1, 2] empty_store))
     = [(1, JStr ''Unknown'', JInt 0, 100), (2, JStr ''Unknown'', JInt 0, 100)]"
  by (simp add: poll_top_games_failing_def poll_top_games_def batch_statements_def
      gather_snapshots_def snapshot_statements_def fetch_universe_snapshot_def try_fetch_def
      zero_snapshot_def execute_def commit_def offline_def upsert_clock_def empty_store_def)

section \<open>Properties of the candidate source resolver\<close>

lemma distinct_FALLBACK_UNIVERSES: "distinct FALLBACK_UNIVERSES"
  by (simp add: FALLBACK_UNIVERSES_def)

lemma length_FALLBACK_UNIVERSES: "length FALLBACK_UNIVERSES = 46"
  by (simp add: FALLBACK_UNIVERSES_def)

lemma int_each_ints: "int_each lib (map JInt ids) = Inr ids"
  by (induction ids) auto

lemma load_well_formed:
  assumes "map_of kvs ''generated_at'' = Some (JStr s)" and "s \<noteq> []"
    and "fromisoformat lib s = Naive generated_at"
    and "map_of kvs ''universe_ids'' = Some (JArr (map JInt ids))"
  shows "load_cached_universes lib now cache_ttl (Parsed (JObj kvs)) =
           Inr (if now - generated_at \<le> cache_ttl then Some ids else None)"
  using assms by (simp add: load_cached_universes_def dict_get_def int_each_ints)

text \<open>
  Claim C4, as amended. For a cache entry with a timestamp \<open>fromisoformat\<close> reads as a naive
  datetime and a non-empty list of integer ids, of age \<open>N = now - generated_at\<close>, and a TTL
  \<open>T\<close>: \<open>_load_cached_universes\<close> returns the ids exactly when \<open>N \<le> T\<close>; when \<open>N \<le> T\<close> the
  resolver returns the cached ids cut to \<open>limit\<close> and leaves the cache file as it is, so an
  entry whose age equals the TTL is honoured; when \<open>N > T\<close> the resolver returns the
  discovered ids, or the fallback list, and writes the cache anew.
\<close>

theorem cache_honoured_up_to_ttl:
  assumes "map_of kvs ''generated_at'' = Some (JStr s)" and "s \<noteq> []"
    and "fromisoformat lib s = Naive generated_at"
    and "map_of kvs ''universe_ids'' = Some (JArr (map JInt ids))"
    and "ids \<noteq> []"
  shows "(load_cached_universes lib now cache_ttl (Parsed (JObj kvs)) = Inr (Some ids)
            \<longleftrightarrow> now - generated_at \<le> cache_ttl)
       \<and> (now - generated_at \<le> cache_ttl \<longrightarrow>
            get_top_universe_ids lib now cache_ttl stamp discovered (Parsed (JObj kvs)) limit
              = Inr (slice_to limit ids, Parsed (JObj kvs)))
       \<and> (now - generated_at > cache_ttl \<longrightarrow>
            get_top_universe_ids lib now cache_ttl stamp discovered (Parsed (JObj kvs)) limit
              = (if discovered \<noteq> [] then Inr (discovered, save_cached_universes stamp discovered)
                 else Inr (slice_to limit FALLBACK_UNIVERSES,
                           save_cached_universes stamp FALLBACK_UNIVERSES)))
       \<and> (0 \<le> limit \<longrightarrow> slice_to limit ids = take (nat limit) ids)"
proof -
  have l: "load_cached_universes lib now cache_ttl (Parsed (JObj kvs)) =
           Inr (if now - generated_at \<le> cache_ttl then Some ids else None)"
    using assms(1-4) by (rule load_well_formed)
  obtain c cs where ids: "ids = c # cs" using assms(5) by (cases ids) auto
  show ?thesis
    using l ids by (simp add: get_top_universe_ids_def slice_to_def)
qed

theorem cache_honoured_up_to_ttl_witness:
  "load_cached_universes example_lib four_hours four_hours fresh_cache = Inr (Some [1, 2, 3])
   \<and> get_top_universe_ids example_lib (four_hours - 1) four_hours
        ''1970-01-01T03:59:59.999999'' [5] fresh_cache 2
      = Inr ([1, 2], fresh_cache)
   \<and> get_top_universe_ids example_lib (four_hours + 1) four_hours
        ''1970-01-01T04:00:00.000001'' [5] fresh_cache 2
      = Inr ([5], save_cached_universes ''1970-01-01T04:00:00.000001'' [5])"
proof -
  have a: "map_of [(''generated_at'', JStr ''1970-01-01T00:00:00''),
                   (''universe_ids'', JArr (map JInt [1, 2, 3]))] ''generated_at''
             = Some (JStr ''1970-01-01T00:00:00'')" by simp
  have b: "''1970-01-01T00:00:00'' \<noteq> []" by simp
  have c: "fromisoformat example_lib ''1970-01-01T00:00:00'' = Naive 0"
    by (simp add: example_lib_def)
  have d: "map_of [(''generated_at'', JStr ''1970-01-01T00:00:00''),
                   (''universe_ids'', JArr (map JInt [1, 2, 3]))] ''universe_ids''
             = Some (JArr (map JInt [1, 2, 3]))" by simp
  have e: "[1, 2, 3] \<noteq> ([]::int list)" by simp
  note t = cache_honoured_up_to_ttl [OF a b c d e]
  show ?thesis
    using t [of four_hours four_hours]
      t [of "four_hours - 1" four_hours "''1970-01-01T03:59:59.999999''" "[5]" 2]
      t [of "four_hours + 1" four_hours "''1970-01-01T04:00:00.000001''" "[5]" 2]
    by (simp add: fresh_cache_def four_hours_def)
qed

text \<open>The claim as first stated honours an entry only when its age is below the TTL. An
  entry written at instant 0 and read four hours later, with a TTL of four hours, has an
  age that is not below the TTL; the resolver returns the cached ids, not the discovered
  one, and leaves the cache as it is.\<close>

theorem cache_at_ttl_boundary_counterexample:
  "fromisoformat example_lib ''1970-01-01T00:00:00'' = Naive 0
   \<and> \<not> (four_hours - 0 < four_hours)
   \<and> get_top_universe_ids example_lib four_hours four_hours ''1970-01-01T04:00:00'' [5]
        fresh_cache 2
      = Inr ([1, 2], fresh_cache)"
  by (simp add: get_top_universe_ids_def load_cached_universes_def example_lib_def
      dict_get_def slice_to_def fresh_cache_def four_hours_def)

text \<open>
  Claim C6. When the cache gives nothing (\<open>_load_cached_universes\<close> returns \<open>None\<close> or an
  empty list) and discovery returns no id, the resolver returns, without an error, the
  fallback list cut to \<open>limit\<close>, and writes the whole fallback list to the cache under the
  timestamp taken at that moment. For a limit of at least 1 the result is not empty.
\<close>

theorem fallback_when_discovery_empty:
  assumes "load_cached_universes lib now cache_ttl file = Inr None
         \<or> load_cached_universes lib now cache_ttl file = Inr (Some [])"
  shows "get_top_universe_ids lib now cache_ttl stamp [] file limit
           = Inr (slice_to limit FALLBACK_UNIVERSES,
                  Parsed (JObj [(''generated_at'', JStr stamp),
                                (''universe_ids'', JArr (map JInt FALLBACK_UNIVERSES))]))
       \<and> (0 \<le> limit \<longrightarrow> slice_to limit FALLBACK_UNIVERSES = take (nat limit) FALLBACK_UNIVERSES)
       \<and> (1 \<le> limit \<longrightarrow> slice_to limit FALLBACK_UNIVERSES \<noteq> [])"
proof -
  have s: "save_cached_universes stamp FALLBACK_UNIVERSES =
      Parsed (JObj [(''generated_at'', JStr stamp),
                    (''universe_ids'', JArr (map JInt FALLBACK_UNIVERSES))])"
    by (simp add: save_cached_universes_def dict_fromkeys_distinct distinct_FALLBACK_UNIVERSES)
  have 1: "get_top_universe_ids lib now cache_ttl stamp [] file limit
           = Inr (slice_to limit FALLBACK_UNIVERSES,
                  Parsed (JObj [(''generated_at'', JStr stamp),
                                (''universe_ids'', JArr (map JInt FALLBACK_UNIVERSES))]))"
    using assms s by (auto simp: get_top_universe_ids_def)
  have 2: "0 \<le> limit \<longrightarrow> slice_to limit FALLBACK_UNIVERSES = take (nat limit) FALLBACK_UNIVERSES"
    by (simp add: slice_to_def)
  have 3: "1 \<le> limit \<longrightarrow> slice_to limit FALLBACK_UNIVERSES \<noteq> []"
  proof
    assume "1 \<le> limit"
    then have "0 < nat limit" and "0 \<le> limit" by simp_all
    then show "slice_to limit FALLBACK_UNIVERSES \<noteq> []"
      using length_FALLBACK_UNIVERSES by (auto simp: slice_to_def)
  qed
  from 1 2 3 show ?thesis by blast
qed

theorem fallback_when_discovery_empty_witness:
  "load_cached_universes example_lib 0 four_hours Missing = Inr None
   \<and> get_top_universe_ids example_lib 0 four_hours ''1970-01-01T00:00:00'' [] Missing 3
       = Inr ([994732206, 245662005, 383310974],
              Parsed (JObj [(''generated_at'', JStr ''1970-01-01T00:00:00''),
                            (''universe_ids'', JArr (map JInt FALLBACK_UNIVERSES))]))"
proof -
  have h: "load_cached_universes example_lib 0 four_hours Missing = Inr None"
    by (simp add: load_cached_universes_def)
  have t: "slice_to 3 FALLBACK_UNIVERSES = [994732206, 245662005, 383310974]"
    by (simp add: slice_to_def FALLBACK_UNIVERSES_def)
  show ?thesis
    using h t fallback_when_discovery_empty [OF disjI1 [OF h], of "''1970-01-01T00:00:00''" 3]
    by simp
qed

text \<open>The states of the cache file the function provides for: no file, text that is not
  JSON, an object with no \<open>generated_at\<close>.\<close>

lemma handled_cache_states:
  "load_cached_universes lib now cache_ttl Missing = Inr None"
  "load_cached_universes lib now cache_ttl Unparsable = Inr None"
  "map_of kvs ''generated_at'' = None \<Longrightarrow>
     load_cached_universes lib now cache_ttl (Parsed (JObj kvs)) = Inr None"
  by (simp_all add: load_cached_universes_def dict_get_def)

text \<open>A timestamp that \<open>fromisoformat\<close> rejects, and a file whose JSON value is no object,
  raise; the resolver passes the error on.\<close>

lemma malformed_timestamp_raises:
  "map_of kvs ''generated_at'' = Some (JStr s) \<Longrightarrow> s \<noteq> [] \<Longrightarrow> fromisoformat lib s = Malformed \<Longrightarrow>
     load_cached_universes lib now cache_ttl (Parsed (JObj kvs)) = Inl ValueError
     \<and> get_top_universe_ids lib now cache_ttl stamp discovered (Parsed (JObj kvs)) limit
         = Inl ValueError"
  by (simp add: load_cached_universes_def get_top_universe_ids_def dict_get_def)

lemma non_object_cache_raises:
  "load_cached_universes lib now cache_ttl (Parsed (JArr xs)) = Inl AttributeError"
  by (simp add: load_cached_universes_def)

text \<open>
  Claim C9. The claim asks that no content of the cache file makes the load raise. For the
  file \<^verbatim>\<open>{"generated_at": "yesterday", "universe_ids": [1]}\<close>, whose timestamp is not an
  ISO timestamp, \<open>datetime.fromisoformat\<close> raises \<open>ValueError\<close> outside the \<open>try\<close> block:
  \<open>_load_cached_universes\<close> raises it, and so does \<open>get_top_universe_ids\<close>, where discovery
  had an id to return.
\<close>

theorem invalid_timestamp_in_cache_raises:
  "load_cached_universes example_lib 0 four_hours broken_cache = Inl ValueError
   \<and> get_top_universe_ids example_lib 0 four_hours ''1970-01-01T00:00:00'' [5] broken_cache 500
       = Inl ValueError"
  by (simp add: load_cached_universes_def get_top_universe_ids_def dict_get_def example_lib_def
      broken_cache_def)

section \<open>Properties of the rounding\<close>

lemma round_half_even_int: "round_half_even (of_int z) = z"
  by (simp add: round_half_even_def)

lemma round_half_even_error: "\<bar>of_int (round_half_even m) - m\<bar> \<le> 1 / 2"
proof -
  have "of_int \<lfloor>m\<rfloor> \<le> m" and "m < of_int \<lfloor>m\<rfloor> + 1" by linarith+
  then show ?thesis by (auto simp: round_half_even_def Let_def abs_le_iff)
qed

lemma round_double_minus: "round_double (- x) = - round_double x"
  by (simp add: round_double_def Let_def)

lemma bitlen_one: "bitlen 1 = 1"
  by (simp add: bitlen_alt_def)

lemma binade_int:
  assumes "0 < n"
  shows "binade (of_int n) = bitlen n - 1" and "0 \<le> bitlen n - 1"
    and "(2::int) ^ nat (bitlen n - 1) \<le> n"
proof -
  from bitlen_bounds [OF assms] show b: "(2::int) ^ nat (bitlen n - 1) \<le> n" by simp
  from assms show nn: "0 \<le> bitlen n - 1" by (simp add: bitlen_alt_def)
  have "(2::rat) powi (bitlen n - 1) = of_int (2 ^ nat (bitlen n - 1))"
    using nn by (simp add: power_int_def)
  also have "\<dots> \<le> of_int n" using b by (simp only: of_int_le_iff)
  finally have "(2::rat) powi (bitlen n - 1) \<le> of_int n" .
  then show "binade (of_int n) = bitlen n - 1"
    by (simp add: binade_def bitlen_one)
qed

lemma round_double_pos_int:
  assumes "0 < n" and "n < 2 ^ 53"
  shows "round_double (of_int n) = of_int n"
proof -
  define d where "d = bitlen n - 1"
  have bin: "binade (of_int n) = d" and d0: "0 \<le> d" and low: "(2::int) ^ nat d \<le> n"
    using binade_int [OF assms(1)] by (simp_all add: d_def)
  have "(2::int) ^ nat d < 2 ^ 53" using low assms(2) by linarith
  then have "nat d < 53" by (rule power_less_imp_less_exp [rotated]) simp
  then have d52: "d \<le> 52" by simp
  define k where "k = nat (52 - d)"
  have ulp: "(2::rat) powi (max d (- 1022) - 52) = inverse (2 ^ k)"
  proof -
    have "max d (- 1022) - 52 = - int k" using d0 d52 by (simp add: k_def)
    then show ?thesis by (simp add: power_int_minus)
  qed
  have q: "of_int n / inverse ((2::rat) ^ k) = of_int (n * 2 ^ k)"
    by (simp add: divide_inverse)
  have "round_double (of_int n) =
     sgn (of_int n :: rat) * of_int (round_half_even (\<bar>of_int n\<bar> / inverse (2 ^ k))) * inverse (2 ^ k)"
    using assms(1) bin ulp by (simp add: round_double_def Let_def)
  also have "\<dots> = of_int (n * 2 ^ k) * inverse (2 ^ k)"
    using assms(1) q by (simp add: round_half_even_int del: of_int_mult of_int_power)
  also have "\<dots> = of_int n" by simp
  finally show ?thesis .
qed

text \<open>An integer below \<open>2 ^ 53\<close> in size is a double: its conversion changes nothing.\<close>

lemma round_double_int:
  assumes "\<bar>n\<bar> < 2 ^ 53"
  shows "round_double (of_int n) = of_int n"
proof (cases n "0::int" rule: linorder_cases)
  case equal
  then show ?thesis by (simp add: round_double_def)
next
  case greater
  then show ?thesis using assms round_double_pos_int [of n] by simp
next
  case less
  then have "round_double (of_int (- n)) = of_int (- n)"
    using assms round_double_pos_int [of "- n"] by simp
  then show ?thesis using round_double_minus [of "of_int n"] by simp
qed

lemma binade_bounds:
  assumes "0 < x"
  shows "2 powi (binade x) \<le> x" and "x < 2 powi (binade x + 1)"
proof -
  obtain a b where ab: "quotient_of x = (a, b)" by (cases "quotient_of x")
  then have b0: "0 < b" by (rule quotient_of_denom_pos)
  have x: "x = of_int a / of_int b" using ab by (rule quotient_of_div)
  have a0: "0 < a" using assms b0 x by (simp add: zero_less_divide_iff)
  define la lb where "la = bitlen a" and "lb = bitlen b"
  have la1: "1 \<le> la" and lb1: "1 \<le> lb" using a0 b0 by (simp_all add: la_def lb_def bitlen_alt_def)
  have pw: "(2::rat) powi k = of_int (2 ^ nat k)" if "0 \<le> k" for k
    using that by (simp add: power_int_def)
  have a_lo: "(2::rat) powi (la - 1) \<le> of_int a"
    using bitlen_bounds [OF a0] la1 by (simp only: pw la_def of_int_le_iff)
  have a_hi: "of_int a < (2::rat) powi la"
    using bitlen_bounds [OF a0] la1 by (simp only: pw la_def of_int_less_iff)
  have b_lo: "(2::rat) powi (lb - 1) \<le> of_int b"
    using bitlen_bounds [OF b0] lb1 by (simp only: pw lb_def of_int_le_iff)
  have b_hi: "of_int b < (2::rat) powi lb"
    using bitlen_bounds [OF b0] lb1 by (simp only: pw lb_def of_int_less_iff)
  have pos: "0 < (2::rat) powi k" for k by simp
  have up: "x < 2 powi (la - lb + 1)"
  proof -
    have "of_int a / of_int b < (2::rat) powi la / of_int b"
      using a_hi b0 by (simp add: divide_strict_right_mono)
    also have "\<dots> \<le> 2 powi la / 2 powi (lb - 1)"
      using b_lo pos [of la] pos [of "lb - 1"] by (simp add: frac_le)
    also have "\<dots> = 2 powi (la - (lb - 1))" by (simp add: power_int_diff)
    finally show ?thesis by (simp add: x algebra_simps)
  qed
  have down: "2 powi (la - lb - 1) \<le> x"
  proof -
    have "(2::rat) powi (la - 1 - lb) = 2 powi (la - 1) / 2 powi lb" by (simp add: power_int_diff)
    also have "\<dots> \<le> of_int a / 2 powi lb"
      using a_lo pos [of lb] by (simp add: divide_right_mono)
    also have "\<dots> \<le> of_int a / of_int b"
      using b_hi b0 a0 by (simp add: frac_le)
    finally show ?thesis by (simp add: x algebra_simps)
  qed
  have bin: "binade x = (if 2 powi (la - lb) \<le> x then la - lb else la - lb - 1)"
    using ab by (simp add: binade_def la_def lb_def)
  show "2 powi (binade x) \<le> x" using bin down by auto
  show "x < 2 powi (binade x + 1)" using bin up by (auto simp: not_le)
qed

lemma binade_ge:
  assumes "2 powi k \<le> x"
  shows "k \<le> binade x"
proof (rule ccontr)
  assume "\<not> k \<le> binade x"
  then have "binade x + 1 \<le> k" by simp
  then have "(2::rat) powi (binade x + 1) \<le> 2 powi k"
    by (simp add: power_int_increasing)
  moreover have "0 < x" using assms
    by (rule less_le_trans [rotated]) simp
  ultimately show False using binade_bounds(2) [of x] assms by linarith
qed

text \<open>Outside the subnormal range the rounding moves a number by at most half a unit in the
  last of its 53 bits.\<close>

lemma round_double_error:
  assumes "x \<noteq> 0" and "- 1022 \<le> binade \<bar>x\<bar>"
  shows "\<bar>round_double x - x\<bar> \<le> \<bar>x\<bar> / 2 ^ 53"
proof -
  define e where "e = binade \<bar>x\<bar>"
  define ulp :: rat where "ulp = 2 powi (e - 52)"
  define m where "m = \<bar>x\<bar> / ulp"
  have ulp0: "0 < ulp" by (simp add: ulp_def)
  have rd: "round_double x = sgn x * of_int (round_half_even m) * ulp"
    using assms by (simp add: round_double_def Let_def e_def ulp_def m_def max_def)
  have xm: "x = sgn x * m * ulp"
    using ulp0 by (simp add: m_def mult_sgn_abs)
  have "round_double x - x = sgn x * (of_int (round_half_even m) - m) * ulp"
    by (subst (2) xm) (simp add: rd algebra_simps)
  then have "\<bar>round_double x - x\<bar> = \<bar>of_int (round_half_even m) - m\<bar> * ulp"
    using assms(1) ulp0 by (simp add: abs_mult abs_sgn_eq)
  also have "\<dots> \<le> 1 / 2 * ulp"
    using round_half_even_error [of m] ulp0 by (simp add: mult_right_mono)
  also have "\<dots> = 2 powi e / 2 ^ 53"
  proof -
    have "(2::rat) powi (e - 52) = 2 powi e / 2 powi 52" by (simp add: power_int_diff)
    then show ?thesis by (simp add: ulp_def)
  qed
  also have "\<dots> \<le> \<bar>x\<bar> / 2 ^ 53"
    using binade_bounds(1) [of "\<bar>x\<bar>"] assms(1) by (simp add: e_def divide_right_mono)
  finally show ?thesis .
qed

text \<open>On 32-bit integers the \<open>DOUBLE\<close> division of the query is Python's division, and it is
  within half a unit in the last bit of the exact quotient.\<close>

lemma double_division_of_integers:
  assumes "\<bar>a\<bar> < 2 ^ 53" and "\<bar>b\<bar> < 2 ^ 53"
  shows "round_double (to_double a / to_double b) = py_truediv a b"
  using assms by (simp add: to_double_def py_truediv_def round_double_int)

lemma two_powi_minus_31: "(2::rat) powi (- 31) = 1 / 2 ^ 31"
  by (simp only: power_int_minus power_int_numeral inverse_eq_divide)

lemma py_truediv_error:
  assumes "0 < b" and "b \<le> 2147483647"
  shows "\<bar>py_truediv a b - of_int a / of_int b\<bar> \<le> \<bar>of_int a / of_int b\<bar> / 2 ^ 53"
proof (cases "a = 0")
  case True
  then show ?thesis by (simp add: py_truediv_def round_double_def)
next
  case False
  define q :: rat where "q = of_int a / of_int b"
  have q0: "q \<noteq> 0" using False assms(1) by (simp add: q_def)
  have "1 \<le> \<bar>a\<bar>" using False by simp
  then have "(of_int 1 :: rat) \<le> of_int \<bar>a\<bar>" by (simp only: of_int_le_iff)
  then have one: "(1::rat) \<le> \<bar>of_int a\<bar>" by simp
  have "b \<le> 2 ^ 31" using assms(2) by simp
  then have "(of_int b :: rat) \<le> of_int (2 ^ 31)" by (simp only: of_int_le_iff)
  then have bb: "(of_int b :: rat) \<le> 2 ^ 31" by simp
  have b0: "(0::rat) < of_int b" using assms(1) by simp
  have "(2::rat) powi (- 31) = 1 / 2 ^ 31" by (rule two_powi_minus_31)
  also have "\<dots> \<le> 1 / of_int b" using bb b0 by (intro frac_le) simp_all
  also have "\<dots> \<le> \<bar>of_int a\<bar> / of_int b" using one b0 by (intro divide_right_mono) simp_all
  also have "\<dots> = \<bar>q\<bar>" using b0 by (simp add: q_def)
  finally have "- 31 \<le> binade \<bar>q\<bar>" by (rule binade_ge)
  then have "- 1022 \<le> binade \<bar>q\<bar>" by simp
  with q0 have "\<bar>round_double q - q\<bar> \<le> \<bar>q\<bar> / 2 ^ 53" by (rule round_double_error)
  then show ?thesis by (simp only: py_truediv_def q_def)
qed

section \<open>Properties of the growth window evaluator\<close>

lemma newest_in_set: "newest rs = Some r \<Longrightarrow> r \<in> set rs"
  by (induction rs arbitrary: r) (auto split: option.splits if_splits)

lemma newest_None: "newest rs = None \<longleftrightarrow> rs = []"
  by (cases rs) (auto split: option.splits)

lemma newest_greatest: "newest rs = Some r \<Longrightarrow> \<forall>x \<in> set rs. g_timestamp x \<le> g_timestamp r"
  by (induction rs arbitrary: r) (fastforce split: option.splits if_splits simp: newest_None)+

lemma filtered_latest_Some:
  "filtered_latest gs uid = Some cur \<Longrightarrow> cur \<in> set gs \<and> g_universe_id cur = uid"
  by (auto simp: filtered_latest_def dest: newest_in_set)

lemma filtered_week_ago_Some:
  "filtered_week_ago now gs uid = Some prev \<Longrightarrow>
     prev \<in> set gs \<and> g_universe_id prev = uid \<and> g_timestamp prev \<le> now - seven_days"
  by (auto simp: filtered_week_ago_def dest: newest_in_set)

text \<open>There is no baseline exactly when the universe has no snapshot seven days old.\<close>

lemma filtered_week_ago_None:
  "filtered_week_ago now gs uid = None \<longleftrightarrow>
     (\<forall>r \<in> set gs. g_universe_id r = uid \<longrightarrow> now - seven_days < g_timestamp r)"
  by (auto simp: filtered_week_ago_def newest_None filter_empty_conv)

lemma growth_rows_of_uid:
  "row \<in> set (growth_rows_of now gs metas uid) \<Longrightarrow> r_universe_id row = uid"
proof -
  assume row: "row \<in> set (growth_rows_of now gs metas uid)"
  then obtain cur where cur: "filtered_latest gs uid = Some cur"
    by (cases "filtered_latest gs uid") (auto simp: growth_rows_of_def)
  then have "g_universe_id cur = uid" by (simp add: filtered_latest_Some)
  with row cur show ?thesis
    by (auto simp: growth_rows_of_def split: option.splits if_splits)
qed

lemma growth_rows_of_absent:
  "uid \<notin> set (map g_universe_id gs) \<Longrightarrow> growth_rows_of now gs metas uid = []"
proof -
  assume "uid \<notin> set (map g_universe_id gs)"
  then have "filtered_latest gs uid = None"
    by (cases "filtered_latest gs uid") (auto dest!: filtered_latest_Some)
  then show ?thesis by (simp add: growth_rows_of_def)
qed

lemma growth_query_rows:
  "{row \<in> set (growth_query now gs metas). r_universe_id row = uid}
     = set (growth_rows_of now gs metas uid)"
proof (intro set_eqI iffI)
  fix row assume "row \<in> {row \<in> set (growth_query now gs metas). r_universe_id row = uid}"
  then obtain u where "row \<in> set (growth_rows_of now gs metas u)" and "r_universe_id row = uid"
    by (auto simp: growth_query_def)
  then show "row \<in> set (growth_rows_of now gs metas uid)"
    using growth_rows_of_uid [of row now gs metas u] by simp
next
  fix row assume row: "row \<in> set (growth_rows_of now gs metas uid)"
  have "uid \<in> set (map g_universe_id gs)"
  proof (rule ccontr)
    assume "uid \<notin> set (map g_universe_id gs)"
    then have "growth_rows_of now gs metas uid = []" by (rule growth_rows_of_absent)
    with row show False by simp
  qed
  then have "uid \<in> set (dict_fromkeys (map g_universe_id gs))"
    by (simp only: set_dict_fromkeys)
  with row have "row \<in> set (growth_query now gs metas)"
    by (auto simp: growth_query_def)
  with row show "row \<in> {row \<in> set (growth_query now gs metas). r_universe_id row = uid}"
    by (simp add: growth_rows_of_uid)
qed

lemma left_join_meta_nonempty: "left_join_meta metas uid \<noteq> []"
  by (simp add: left_join_meta_def split: list.splits)

lemma candidate_of_row_uid:
  "c \<in> set (candidate_of_row thr row) \<Longrightarrow> c_universe_id c = r_universe_id row"
  by (auto simp: candidate_of_row_def split: option.splits if_splits)

lemma candidates_of_uid:
  "{c \<in> set (read_growth_candidates now thr gs metas). c_universe_id c = uid}
     = (\<Union>row \<in> set (growth_rows_of now gs metas uid). set (candidate_of_row thr row))"
proof (intro set_eqI iffI)
  fix c assume "c \<in> {c \<in> set (read_growth_candidates now thr gs metas). c_universe_id c = uid}"
  then obtain row where row: "row \<in> set (growth_query now gs metas)"
    and c: "c \<in> set (candidate_of_row thr row)" and u: "c_universe_id c = uid"
    by (auto simp: read_growth_candidates_def)
  from c u have "r_universe_id row = uid" by (simp add: candidate_of_row_uid)
  with row have "row \<in> set (growth_rows_of now gs metas uid)"
    using growth_query_rows [of now gs metas uid] by blast
  with c show "c \<in> (\<Union>row \<in> set (growth_rows_of now gs metas uid). set (candidate_of_row thr row))"
    by blast
next
  fix c assume "c \<in> (\<Union>row \<in> set (growth_rows_of now gs metas uid). set (candidate_of_row thr row))"
  then obtain row where row: "row \<in> set (growth_rows_of now gs metas uid)"
    and c: "c \<in> set (candidate_of_row thr row)" by blast
  from row have q: "row \<in> set (growth_query now gs metas)" and "r_universe_id row = uid"
    using growth_query_rows [of now gs metas uid] by blast+
  with c have "c_universe_id c = uid" by (simp add: candidate_of_row_uid)
  moreover from q c have "c \<in> set (read_growth_candidates now thr gs metas)"
    by (auto simp: read_growth_candidates_def)
  ultimately show "c \<in> {c \<in> set (read_growth_candidates now thr gs metas). c_universe_id c = uid}"
    by simp
qed

text \<open>
  Claim C1. For a universe whose latest snapshot has the metric \<open>current\<close> and whose baseline
  (its latest snapshot at least seven days old) has a metric \<open>baseline > 0\<close>, both in the
  range of the \<open>INTEGER\<close> column and with a difference in it: the query yields a row for it;
  the growth rate of every such row is equal to \<open>(current - baseline) / baseline\<close> as Python
  evaluates it, and is within half a unit in the last bit of the quotient of the rational
  numbers; the universe is among the candidates returned exactly when its growth rate is at
  least the growth threshold; a candidate returned for it carries the float product of
  that rate and 100 as its growth percentage.
\<close>

theorem growth_rate_and_threshold:
  assumes "filtered_latest gs uid = Some cur" and "g_ccu cur = Some current"
    and "filtered_week_ago now gs uid = Some prev" and "g_ccu prev = Some baseline"
    and "0 < baseline" and "baseline \<le> 2147483647"
    and "current \<le> 2147483647" and "- 2147483648 \<le> current - baseline"
  shows "(\<exists>row \<in> set (growth_query now gs metas). r_universe_id row = uid)
       \<and> (\<forall>row \<in> set (growth_query now gs metas). r_universe_id row = uid \<longrightarrow>
            r_growth_rate row = Some (py_truediv (current - baseline) baseline))
       \<and> \<bar>py_truediv (current - baseline) baseline
            - (of_int current - of_int baseline) / of_int baseline\<bar>
           \<le> \<bar>(of_int current - of_int baseline) / of_int baseline\<bar> / 2 ^ 53
       \<and> ((\<exists>c \<in> set (read_growth_candidates now growth_threshold gs metas). c_universe_id c = uid)
            \<longleftrightarrow> growth_threshold \<le> py_truediv (current - baseline) baseline)
       \<and> (\<forall>c \<in> set (read_growth_candidates now growth_threshold gs metas). c_universe_id c = uid \<longrightarrow>
            c_growth_percent c = round_double (py_truediv (current - baseline) baseline * 100))"
proof -
  define rate :: rat where "rate = py_truediv (current - baseline) baseline"
  have small: "\<bar>current - baseline\<bar> < 2 ^ 53" "\<bar>baseline\<bar> < 2 ^ 53"
    using assms(5-8) by simp_all
  have gr: "growth_rate (g_ccu cur) (g_ccu prev) = Some rate"
    using assms(2,4,5) double_division_of_integers [OF small]
    by (simp add: growth_rate_def nullif0_def rate_def)
  have rows: "\<forall>row \<in> set (growth_rows_of now gs metas uid). r_growth_rate row = Some rate"
    using assms(1,3) gr by (auto simp: growth_rows_of_def split: if_splits)
  have ne: "growth_rows_of now gs metas uid \<noteq> []"
    using assms(1,3,4,5) left_join_meta_nonempty
    by (simp add: growth_rows_of_def positive_def)
  then obtain row0 where row0: "row0 \<in> set (growth_rows_of now gs metas uid)"
    by (cases "growth_rows_of now gs metas uid") auto
  have q: "{row \<in> set (growth_query now gs metas). r_universe_id row = uid}
             = set (growth_rows_of now gs metas uid)"
    by (rule growth_query_rows)
  have 1: "\<exists>row \<in> set (growth_query now gs metas). r_universe_id row = uid"
    using q row0 by blast
  have 2: "\<forall>row \<in> set (growth_query now gs metas). r_universe_id row = uid \<longrightarrow>
            r_growth_rate row = Some rate"
    using q rows by blast
  have c: "{c \<in> set (read_growth_candidates now growth_threshold gs metas). c_universe_id c = uid}
     = (\<Union>row \<in> set (growth_rows_of now gs metas uid). set (candidate_of_row growth_threshold row))"
    by (rule candidates_of_uid)
  have keep: "\<And>row. row \<in> set (growth_rows_of now gs metas uid) \<Longrightarrow>
      (candidate_of_row growth_threshold row \<noteq> []) = (growth_threshold \<le> rate)"
    using rows by (auto simp: candidate_of_row_def)
  have 3: "(\<exists>c \<in> set (read_growth_candidates now growth_threshold gs metas). c_universe_id c = uid)
            \<longleftrightarrow> growth_threshold \<le> rate"
  proof
    assume "\<exists>c \<in> set (read_growth_candidates now growth_threshold gs metas). c_universe_id c = uid"
    then obtain c' where "c' \<in> {c \<in> set (read_growth_candidates now growth_threshold gs metas).
        c_universe_id c = uid}" by blast
    with c obtain row where "row \<in> set (growth_rows_of now gs metas uid)"
      and "c' \<in> set (candidate_of_row growth_threshold row)" by blast
    then show "growth_threshold \<le> rate" using keep [of row] by auto
  next
    assume "growth_threshold \<le> rate"
    with keep [OF row0] obtain c' where "c' \<in> set (candidate_of_row growth_threshold row0)"
      by (cases "candidate_of_row growth_threshold row0") auto
    with row0 c have "c' \<in> {c \<in> set (read_growth_candidates now growth_threshold gs metas).
        c_universe_id c = uid}" by blast
    then show "\<exists>c \<in> set (read_growth_candidates now growth_threshold gs metas). c_universe_id c = uid"
      by blast
  qed
  have 4: "\<forall>c \<in> set (read_growth_candidates now growth_threshold gs metas). c_universe_id c = uid \<longrightarrow>
            c_growth_percent c = round_double (rate * 100)"
  proof (intro ballI impI)
    fix c' assume "c' \<in> set (read_growth_candidates now growth_threshold gs metas)"
      and "c_universe_id c' = uid"
    with c obtain row where r: "row \<in> set (growth_rows_of now gs metas uid)"
      and "c' \<in> set (candidate_of_row growth_threshold row)" by blast
    then show "c_growth_percent c' = round_double (rate * 100)"
      using rows by (auto simp: candidate_of_row_def split: if_splits)
  qed
  have 5: "\<bar>rate - (of_int current - of_int baseline) / of_int baseline\<bar>
           \<le> \<bar>(of_int current - of_int baseline) / of_int baseline\<bar> / 2 ^ 53"
    using py_truediv_error [OF assms(5,6), of "current - baseline"] by (simp add: rate_def)
  from 1 2 3 4 5 show ?thesis unfolding rate_def by blast
qed

theorem growth_rate_and_threshold_witness:
  "filtered_latest [tenth_up_now, tenth_up_week_ago] 7 = Some tenth_up_now
   \<and> filtered_week_ago 1000000000000 [tenth_up_now, tenth_up_week_ago] 7 = Some tenth_up_week_ago
   \<and> py_truediv (1100 - 1000) 1000 = float_tenth
   \<and> 7 \<in> set (map c_universe_id
        (read_growth_candidates 1000000000000 float_tenth [tenth_up_now, tenth_up_week_ago] []))
   \<and> 7 \<notin> set (map c_universe_id
        (read_growth_candidates 1000000000000 (1 / 4) [tenth_up_now, tenth_up_week_ago] []))"
proof -
  have h1: "filtered_latest [tenth_up_now, tenth_up_week_ago] 7 = Some tenth_up_now"
    by (simp add: filtered_latest_def tenth_up_now_def tenth_up_week_ago_def)
  have h2: "g_ccu tenth_up_now = Some 1100" by (simp add: tenth_up_now_def)
  have h3: "filtered_week_ago 1000000000000 [tenth_up_now, tenth_up_week_ago] 7
      = Some tenth_up_week_ago"
    by (simp add: filtered_week_ago_def seven_days_def tenth_up_now_def tenth_up_week_ago_def)
  have h4: "g_ccu tenth_up_week_ago = Some 1000" by (simp add: tenth_up_week_ago_def)
  have h5: "(0::int) < 1000" and h6: "(1000::int) \<le> 2147483647"
    and h7: "(1100::int) \<le> 2147483647" and h8: "- 2147483648 \<le> (1100::int) - 1000"
    by simp_all
  have r: "py_truediv (1100 - 1000) 1000 = float_tenth" by code_simp
  have le: "float_tenth \<le> float_tenth" and nle: "\<not> 1 / 4 \<le> float_tenth"
    by (simp_all add: float_tenth_def)
  note t = growth_rate_and_threshold [OF h1 h2 h3 h4 h5 h6 h7 h8, of "[]"]
  have a: "\<exists>c \<in> set (read_growth_candidates 1000000000000 float_tenth
      [tenth_up_now, tenth_up_week_ago] []). c_universe_id c = 7"
    using t [of float_tenth] r le by simp
  have b: "\<not> (\<exists>c \<in> set (read_growth_candidates 1000000000000 (1 / 4)
      [tenth_up_now, tenth_up_week_ago] []). c_universe_id c = 7)"
    using t [of "1 / 4"] r nle by simp
  from a have a': "7 \<in> set (map c_universe_id
        (read_growth_candidates 1000000000000 float_tenth [tenth_up_now, tenth_up_week_ago] []))"
    by force
  from b have b': "7 \<notin> set (map c_universe_id
        (read_growth_candidates 1000000000000 (1 / 4) [tenth_up_now, tenth_up_week_ago] []))"
    by force
  from h1 h3 r a' b' show ?thesis by blast
qed

text \<open>Two values of the model next to the floats of Python: a growth from 100 to 107 gives the
  percentage \<open>7.000000000000001\<close>, and a growth from 3 to 4 the rate \<open>0.3333333333333333\<close>,
  which is not a third.\<close>

lemma growth_percent_example:
  "round_double (py_truediv (107 - 100) 100 * 100) = 7 + 1 / 2 ^ 50"
  by code_simp

lemma growth_rate_third_example:
  "py_truediv (4 - 3) 3 = 6004799503160661 / 18014398509481984"
  by code_simp

text \<open>
  Claim C7. A universe with no snapshot at least seven days old, or whose baseline metric is
  zero, negative or \<open>NULL\<close>, is not among the candidates returned, whatever its current
  metric and the threshold. The evaluator returns its list all the same: the exclusion is
  no error.
\<close>

theorem no_positive_baseline_no_candidate:
  assumes "(\<forall>r \<in> set gs. g_universe_id r = uid \<longrightarrow> now - seven_days < g_timestamp r)
         \<or> (\<exists>prev. filtered_week_ago now gs uid = Some prev
                \<and> (g_ccu prev = None \<or> (\<exists>baseline. g_ccu prev = Some baseline \<and> baseline \<le> 0)))"
  shows "\<forall>c \<in> set (read_growth_candidates now growth_threshold gs metas). c_universe_id c \<noteq> uid"
proof -
  have "growth_rows_of now gs metas uid = []"
    using assms
  proof
    assume "\<forall>r \<in> set gs. g_universe_id r = uid \<longrightarrow> now - seven_days < g_timestamp r"
    then have "filtered_week_ago now gs uid = None" by (simp add: filtered_week_ago_None)
    then show ?thesis by (simp add: growth_rows_of_def split: option.splits)
  next
    assume "\<exists>prev. filtered_week_ago now gs uid = Some prev
                \<and> (g_ccu prev = None \<or> (\<exists>baseline. g_ccu prev = Some baseline \<and> baseline \<le> 0))"
    then show ?thesis by (auto simp: growth_rows_of_def positive_def split: option.splits)
  qed
  then have "{c \<in> set (read_growth_candidates now growth_threshold gs metas). c_universe_id c = uid} = {}"
    by (simp add: candidates_of_uid)
  then show ?thesis by blast
qed

theorem no_positive_baseline_no_candidate_witness:
  "filtered_week_ago 1000000000000 [test_game_now, flat_week_ago] 123 = Some flat_week_ago
   \<and> g_ccu flat_week_ago = Some 0
   \<and> 123 \<notin> set (map c_universe_id
        (read_growth_candidates 1000000000000 (1 / 4) [test_game_now, flat_week_ago] []))
   \<and> 123 \<notin> set (map c_universe_id
        (read_growth_candidates 1000000000000 (1 / 4) [test_game_now, six_days_ago] []))"
proof -
  have w: "filtered_week_ago 1000000000000 [test_game_now, flat_week_ago] 123 = Some flat_week_ago"
    by (simp add: filtered_week_ago_def seven_days_def test_game_now_def flat_week_ago_def)
  have z: "g_ccu flat_week_ago = Some 0" by (simp add: flat_week_ago_def)
  from w z have h1: "(\<forall>r \<in> set [test_game_now, flat_week_ago]. g_universe_id r = 123 \<longrightarrow>
        1000000000000 - seven_days < g_timestamp r)
     \<or> (\<exists>p. filtered_week_ago 1000000000000 [test_game_now, flat_week_ago] 123 = Some p
           \<and> (g_ccu p = None \<or> (\<exists>baseline. g_ccu p = Some baseline \<and> baseline \<le> 0)))"
    by simp
  have "\<forall>r \<in> set [test_game_now, six_days_ago]. g_universe_id r = 123 \<longrightarrow>
        1000000000000 - seven_days < g_timestamp r"
    by (simp add: seven_days_def test_game_now_def six_days_ago_def)
  then have h2: "(\<forall>r \<in> set [test_game_now, six_days_ago]. g_universe_id r = 123 \<longrightarrow>
        1000000000000 - seven_days < g_timestamp r)
     \<or> (\<exists>p. filtered_week_ago 1000000000000 [test_game_now, six_days_ago] 123 = Some p
           \<and> (g_ccu p = None \<or> (\<exists>baseline. g_ccu p = Some baseline \<and> baseline \<le> 0)))"
    by (rule disjI1)
  have a: "123 \<notin> set (map c_universe_id
        (read_growth_candidates 1000000000000 (1 / 4) [test_game_now, flat_week_ago] []))"
    using no_positive_baseline_no_candidate [OF h1, of "1 / 4" "[]"] by force
  have b: "123 \<notin> set (map c_universe_id
        (read_growth_candidates 1000000000000 (1 / 4) [test_game_now, six_days_ago] []))"
    using no_positive_baseline_no_candidate [OF h2, of "1 / 4" "[]"] by force
  from w z a b show ?thesis by blast
qed

section \<open>Properties of the mention correlator\<close>

lemma spike_of_untitled:
  "v_title v = None \<or> v_title v = Some [] \<Longrightarrow> spike_of partial_ratio clock candidate v = []"
  by (auto simp: spike_of_def)

lemma spike_of_title:
  "s \<in> set (spike_of partial_ratio clock candidate v) \<Longrightarrow>
     s_video_title s \<noteq> [] \<and> v_title v = Some (s_video_title s)"
  by (auto simp: spike_of_def Let_def split: option.splits if_splits)

lemma correlate_titled:
  "correlate partial_ratio clock candidates
      (filter (\<lambda>v. v_title v \<noteq> None \<and> v_title v \<noteq> Some []) videos)
     = correlate partial_ratio clock candidates videos"
proof -
  have "concat (map (spike_of partial_ratio clock c)
          (filter (\<lambda>v. v_title v \<noteq> None \<and> v_title v \<noteq> Some []) vs))
      = concat (map (spike_of partial_ratio clock c) vs)" for c vs
    by (induction vs) (auto simp: spike_of_untitled)
  then show ?thesis by (simp add: correlate_def)
qed

lemma correlate_title:
  "s \<in> set (correlate partial_ratio clock candidates videos) \<Longrightarrow>
     s_video_title s \<noteq> [] \<and> (\<exists>v \<in> set videos. v_title v = Some (s_video_title s))"
  by (auto simp: correlate_def dest: spike_of_title)

lemma fetch_recent_videos_titled:
  "fetch_recent_videos since (filter P vs) = filter P (fetch_recent_videos since vs)"
  by (induction vs) (auto simp: fetch_recent_videos_def)

text \<open>
  Claim C10. A video whose title is \<open>NULL\<close> or empty gives no spike with any candidate: the
  loop skips it. Every spike a detection run returns has a non-empty title, the title of one
  of the stored videos, and the run returns the same spikes when the videos with no title
  are taken out of the table beforehand.
\<close>

theorem untitled_mentions_never_spike:
  "(v_title v = None \<or> v_title v = Some [] \<longrightarrow> spike_of partial_ratio clock candidate v = [])
   \<and> (\<forall>s \<in> set (fst (detect_mechanic_spikes partial_ratio clock sql_now now lookback_hours
                        growth_threshold persist db)).
        s_video_title s \<noteq> []
        \<and> (\<exists>v \<in> set (d_youtube_videos db). v_title v = Some (s_video_title s)))
   \<and> fst (detect_mechanic_spikes partial_ratio clock sql_now now lookback_hours growth_threshold
            persist
            (db\<lparr>d_youtube_videos :=
                 filter (\<lambda>v. v_title v \<noteq> None \<and> v_title v \<noteq> Some []) (d_youtube_videos db)\<rparr>))
     = fst (detect_mechanic_spikes partial_ratio clock sql_now now lookback_hours growth_threshold
            persist db)"
proof (intro conjI)
  show "v_title v = None \<or> v_title v = Some [] \<longrightarrow> spike_of partial_ratio clock candidate v = []"
    by (simp add: spike_of_untitled)
next
  show "\<forall>s \<in> set (fst (detect_mechanic_spikes partial_ratio clock sql_now now lookback_hours
                        growth_threshold persist db)).
        s_video_title s \<noteq> []
        \<and> (\<exists>v \<in> set (d_youtube_videos db). v_title v = Some (s_video_title s))"
  proof
    fix s
    assume "s \<in> set (fst (detect_mechanic_spikes partial_ratio clock sql_now now lookback_hours
                        growth_threshold persist db))"
    then obtain cands since where
      "s \<in> set (correlate partial_ratio clock cands (fetch_recent_videos since (d_youtube_videos db)))"
      by (auto simp: detect_mechanic_spikes_def Let_def split: if_splits)
    from correlate_title [OF this]
    show "s_video_title s \<noteq> []
        \<and> (\<exists>v \<in> set (d_youtube_videos db). v_title v = Some (s_video_title s))"
      by (auto simp: fetch_recent_videos_def)
  qed
next
  show "fst (detect_mechanic_spikes partial_ratio clock sql_now now lookback_hours growth_threshold
            persist
            (db\<lparr>d_youtube_videos :=
                 filter (\<lambda>v. v_title v \<noteq> None \<and> v_title v \<noteq> Some []) (d_youtube_videos db)\<rparr>))
     = fst (detect_mechanic_spikes partial_ratio clock sql_now now lookback_hours growth_threshold
            persist db)"
    by (simp add: detect_mechanic_spikes_def Let_def fetch_recent_videos_titled correlate_titled
        del: not_None_eq)
qed

theorem untitled_mentions_never_spike_witness:
  "v_title untitled_video = None
   \<and> spike_of zero_ratio detection_clock test_candidate untitled_video = []
   \<and> v_title blank_video = Some []
   \<and> spike_of zero_ratio detection_clock test_candidate blank_video = []
   \<and> map s_video_title (fst (detect_mechanic_spikes zero_ratio detection_clock 1000000000000
        1000000000000 48 (1 / 4) False test_db))
     = [''NEW Test Game Mechanic Update!'']"
proof -
  have e: "map s_video_title (fst (detect_mechanic_spikes zero_ratio detection_clock 1000000000000
        1000000000000 48 (1 / 4) False test_db)) = [''NEW Test Game Mechanic Update!'']"
    by code_simp
  have h1: "v_title untitled_video = None" by (simp add: untitled_video_def)
  have h2: "v_title blank_video = Some []" by (simp add: blank_video_def)
  have n1: "spike_of zero_ratio detection_clock test_candidate untitled_video = []"
    using h1 untitled_mentions_never_spike
      [where partial_ratio = zero_ratio and clock = detection_clock and v = untitled_video
         and candidate = test_candidate]
    by blast
  have n2: "spike_of zero_ratio detection_clock test_candidate blank_video = []"
    using h2 untitled_mentions_never_spike
      [where partial_ratio = zero_ratio and clock = detection_clock and v = blank_video
         and candidate = test_candidate]
    by blast
  from h1 n1 h2 n2 e show ?thesis by blast
qed

end
